theory Spec2Isabelle
  imports Main "HOL-Library.Word" "HOL-Library.Signed_Division"
begin

unbundle bit_operations_syntax

section \<open>Machine types and constants of mxl371x.c\<close>

type_synonym u8 = "8 word"
type_synonym u16 = "16 word"
type_synonym u32 = "32 word"
type_synonym u64 = "64 word"

text \<open>
  A C \<open>int\<close> that only carries a return code (zero, a negative errno, or the 16-bit value
  of a bus read) is an \<open>int\<close>; no arithmetic is done on it except \<open>|=\<close>.
  The errno numbers are the ones of the kernel's errno-base.h and errno.h.
\<close>

definition EIO :: int where "EIO = 5"
definition EINVAL :: int where "EINVAL = 22"
definition EOPNOTSUPP :: int where "EOPNOTSUPP = 95"
definition ETIMEDOUT :: int where "ETIMEDOUT = 110"

definition MXL371X_MAX_FW_SIZE :: nat where "MXL371X_MAX_FW_SIZE = 4 * 1024 * 1024"

definition SRE_CPU_SRC_SEL_CSR :: u32 where "SRE_CPU_SRC_SEL_CSR = 0x08200010"

definition MXL371X_TSENS_CTRL_REG :: u32 where "MXL371X_TSENS_CTRL_REG = 0x08200200"
definition MXL371X_TSENS_DATA_REG :: u32 where "MXL371X_TSENS_DATA_REG = 0x08200204"
definition MXL371X_RADIO_TSENS_REG1 :: u32 where "MXL371X_RADIO_TSENS_REG1 = 0x0c14c110"
definition MXL371X_RADIO_TSENS_REG2 :: u32 where "MXL371X_RADIO_TSENS_REG2 = 0x0c14c100"
definition MXL371X_RADIO_TSENS_REG3 :: u32 where "MXL371X_RADIO_TSENS_REG3 = 0x0c14c108"

definition MXL371X_TSENS_COEFF_A :: u64 where "MXL371X_TSENS_COEFF_A = 1338680"
definition MXL371X_TSENS_COEFF_B :: u64 where "MXL371X_TSENS_COEFF_B = 277770"
definition MXL371X_TSENS_RSSI_MAX :: u64 where "MXL371X_TSENS_RSSI_MAX = 524288"

definition MXL371X_FW_BASE_ADDR :: u32 where "MXL371X_FW_BASE_ADDR = 0x00000000"
definition MXL371X_FW_STATUS_REG :: u32 where "MXL371X_FW_STATUS_REG = 0x08200100"
definition MXL371X_FW_LOADED :: u32 where "MXL371X_FW_LOADED = 1"
definition MXL371X_FW_RUNNING :: u32 where "MXL371X_FW_RUNNING = 2"
definition MXL371X_FW_ERROR :: u32 where "MXL371X_FW_ERROR = 4"

definition MXL371X_MDIO_ADDR_REG :: u32 where "MXL371X_MDIO_ADDR_REG = 0x0e"
definition MXL371X_MDIO_DATA_REG :: u32 where "MXL371X_MDIO_DATA_REG = 0x0f"

definition MOCA_STATS_BASE :: u32 where "MOCA_STATS_BASE = 0x0c000000"
definition MOCA_STATS_TX_TOTAL_PKTS :: u32 where "MOCA_STATS_TX_TOTAL_PKTS = MOCA_STATS_BASE + 0x00"
definition MOCA_STATS_TX_TOTAL_BYTES :: u32 where "MOCA_STATS_TX_TOTAL_BYTES = MOCA_STATS_BASE + 0x08"
definition MOCA_STATS_TX_DROPPED_PKTS :: u32 where "MOCA_STATS_TX_DROPPED_PKTS = MOCA_STATS_BASE + 0x10"
definition MOCA_STATS_TX_BCAST_PKTS :: u32 where "MOCA_STATS_TX_BCAST_PKTS = MOCA_STATS_BASE + 0x18"
definition MOCA_STATS_TX_MCAST_PKTS :: u32 where "MOCA_STATS_TX_MCAST_PKTS = MOCA_STATS_BASE + 0x20"
definition MOCA_STATS_RX_TOTAL_PKTS :: u32 where "MOCA_STATS_RX_TOTAL_PKTS = MOCA_STATS_BASE + 0x28"
definition MOCA_STATS_RX_TOTAL_BYTES :: u32 where "MOCA_STATS_RX_TOTAL_BYTES = MOCA_STATS_BASE + 0x30"
definition MOCA_STATS_RX_DROPPED_PKTS :: u32 where "MOCA_STATS_RX_DROPPED_PKTS = MOCA_STATS_BASE + 0x38"
definition MOCA_STATS_RX_ERROR_PKTS :: u32 where "MOCA_STATS_RX_ERROR_PKTS = MOCA_STATS_BASE + 0x40"

definition MOCA_LINK_STATUS_REG :: u32 where "MOCA_LINK_STATUS_REG = 0x0c100000"
definition MOCA_LINK_STATUS_MASK :: u32 where "MOCA_LINK_STATUS_MASK = 0x07"
definition MOCA_LINK_PHY_RATE_REG :: u32 where "MOCA_LINK_PHY_RATE_REG = 0x0c100004"
definition MOCA_LINK_MOCA_VER_REG :: u32 where "MOCA_LINK_MOCA_VER_REG = 0x0c100008"
definition MOCA_LINK_NODE_ID_REG :: u32 where "MOCA_LINK_NODE_ID_REG = 0x0c10000c"
definition MOCA_LINK_NC_NODE_ID_REG :: u32 where "MOCA_LINK_NC_NODE_ID_REG = 0x0c100010"
definition MOCA_LINK_LOF_REG :: u32 where "MOCA_LINK_LOF_REG = 0x0c100014"
definition MOCA_LINK_NETWORK_STATE_REG :: u32 where "MOCA_LINK_NETWORK_STATE_REG = 0x0c100018"
definition MOCA_LINK_ACTIVE_NODES_REG :: u32 where "MOCA_LINK_ACTIVE_NODES_REG = 0x0c10001c"

definition MOCA_MAC_ADDR_HI :: u32 where "MOCA_MAC_ADDR_HI = 0x0c100020"
definition MOCA_MAC_ADDR_LO :: u32 where "MOCA_MAC_ADDR_LO = 0x0c100024"

definition MOCA_SECURITY_STATUS_REG :: u32 where "MOCA_SECURITY_STATUS_REG = 0x0c100200"
definition MOCA_SECURITY_ENABLED :: u32 where "MOCA_SECURITY_ENABLED = 1"

section \<open>The register bus and what the driver does on it\<close>

text \<open>
  The host bus is the kernel's \<open>phy_read\<close> and \<open>phy_write\<close>: a 16-bit transfer addressed
  by a register index, returning a negative errno when it fails. The device behind it is
  a parameter: a state \<open>'s\<close> and the two transfer functions. The driver's calls are logged
  in a trace next to the device state, together with its sleeps and its draw of random
  bytes, so that what a function did on the bus can be read off its result.
\<close>

datatype xfer =
    Wr u32 u16
  | Rd u32
  | Msleep nat
  | Usleep nat nat
  | Random nat

record 's mdio_bus =
  bus_read :: "u32 \<Rightarrow> 's \<Rightarrow> int \<times> 's"
  bus_write :: "u32 \<Rightarrow> u16 \<Rightarrow> 's \<Rightarrow> int \<times> 's"

record 's world =
  dev :: 's
  trace :: "xfer list"

definition phy_write :: "'s mdio_bus \<Rightarrow> u32 \<Rightarrow> u16 \<Rightarrow> 's world \<Rightarrow> int \<times> 's world" where
  "phy_write b regnum v w =
     (case bus_write b regnum v (dev w) of
        (ret, d) \<Rightarrow> (ret, \<lparr>dev = d, trace = trace w @ [Wr regnum v]\<rparr>))"

definition phy_read :: "'s mdio_bus \<Rightarrow> u32 \<Rightarrow> 's world \<Rightarrow> int \<times> 's world" where
  "phy_read b regnum w =
     (case bus_read b regnum (dev w) of
        (ret, d) \<Rightarrow> (ret, \<lparr>dev = d, trace = trace w @ [Rd regnum]\<rparr>))"

definition msleep :: "nat \<Rightarrow> 's world \<Rightarrow> 's world" where
  "msleep ms w = w\<lparr>trace := trace w @ [Msleep ms]\<rparr>"

definition usleep_range :: "nat \<Rightarrow> nat \<Rightarrow> 's world \<Rightarrow> 's world" where
  "usleep_range lo hi w = w\<lparr>trace := trace w @ [Usleep lo hi]\<rparr>"

section \<open>Indirect register transport\<close>

text \<open>
  \<open>mxl371x_read_mem32(phydev, addr, val)\<close>: the output parameter \<open>*val\<close> is the argument
  \<open>val\<close> (what it holds on entry) and the second component of the result (what it holds
  on return).
\<close>

definition mxl371x_read_mem32 ::
  "'s mdio_bus \<Rightarrow> u32 \<Rightarrow> u32 \<Rightarrow> 's world \<Rightarrow> int \<times> u32 \<times> 's world" where
  "mxl371x_read_mem32 b addr val w =
     (case phy_write b MXL371X_MDIO_ADDR_REG (ucast (drop_bit 16 addr AND 0xffff)) w of
        (ret, w) \<Rightarrow>
     if ret < 0 then (ret, val, w) else
     (case phy_write b (MXL371X_MDIO_ADDR_REG + 1) (ucast (addr AND 0xffff)) w of
        (ret, w) \<Rightarrow>
     if ret < 0 then (ret, val, w) else
     (case phy_read b MXL371X_MDIO_DATA_REG w of
        (ret, w) \<Rightarrow>
     if ret < 0 then (ret, val, w) else
     (let data_hi = (word_of_int ret :: u16) in
     (case phy_read b (MXL371X_MDIO_DATA_REG + 1) w of
        (ret, w) \<Rightarrow>
     if ret < 0 then (ret, val, w) else
     (let data_lo = (word_of_int ret :: u16) in
      (0, push_bit 16 (ucast data_hi :: u32) OR ucast data_lo, w)))))))"

text \<open>
  \<open>mxl371x_read_mem64\<close>: the locals \<open>val_lo\<close> and \<open>val_hi\<close> are uninitialised in C and
  read only after the call that fills them has returned zero; the model starts them at 0.
  So it does with every uninitialised local that is handed to \<open>mxl371x_read_mem32\<close> as
  its output (\<open>fw_status\<close>, \<open>val\<close>, \<open>mac_hi\<close>, \<open>mac_lo\<close>, \<open>t0\<close>, \<open>t1\<close>): what the output
  holds on entry changes neither the return code, nor the bus, nor the value of a
  successful read (lemma \<open>read_mem32_val_indep\<close> below).
\<close>

definition mxl371x_read_mem64 ::
  "'s mdio_bus \<Rightarrow> u32 \<Rightarrow> u64 \<Rightarrow> 's world \<Rightarrow> int \<times> u64 \<times> 's world" where
  "mxl371x_read_mem64 b addr val w =
     (case mxl371x_read_mem32 b addr 0 w of
        (ret, val_lo, w) \<Rightarrow>
     if ret < 0 then (ret, val, w) else
     (case mxl371x_read_mem32 b (addr + 4) 0 w of
        (ret, val_hi, w) \<Rightarrow>
     if ret < 0 then (ret, val, w) else
     (0, push_bit 32 (ucast val_hi :: u64) OR ucast val_lo, w)))"

definition mxl371x_write_mem32 ::
  "'s mdio_bus \<Rightarrow> u32 \<Rightarrow> u32 \<Rightarrow> 's world \<Rightarrow> int \<times> 's world" where
  "mxl371x_write_mem32 b addr val w =
     (case phy_write b MXL371X_MDIO_ADDR_REG (ucast (drop_bit 16 addr AND 0xffff)) w of
        (ret, w) \<Rightarrow>
     if ret < 0 then (ret, w) else
     (case phy_write b (MXL371X_MDIO_ADDR_REG + 1) (ucast (addr AND 0xffff)) w of
        (ret, w) \<Rightarrow>
     if ret < 0 then (ret, w) else
     (case phy_write b MXL371X_MDIO_DATA_REG (ucast (drop_bit 16 val AND 0xffff)) w of
        (ret, w) \<Rightarrow>
     if ret < 0 then (ret, w) else
     phy_write b (MXL371X_MDIO_DATA_REG + 1) (ucast (val AND 0xffff)) w)))"

section \<open>Temperature sensor\<close>

definition mxl371x_read_temp_raw ::
  "'s mdio_bus \<Rightarrow> u32 \<Rightarrow> u32 \<Rightarrow> 's world \<Rightarrow> int \<times> u32 \<times> u32 \<times> 's world" where
  "mxl371x_read_temp_raw b t0 t1 w =
     (case mxl371x_write_mem32 b MXL371X_RADIO_TSENS_REG1 0x31000001 w of
        (ret, w) \<Rightarrow>
     if ret < 0 then (ret, t0, t1, w) else
     (case mxl371x_write_mem32 b MXL371X_RADIO_TSENS_REG2 0x00000401 w of
        (ret, w) \<Rightarrow>
     if ret < 0 then (ret, t0, t1, w) else
     (case mxl371x_write_mem32 b MXL371X_RADIO_TSENS_REG3 0x00000001 w of
        (ret, w) \<Rightarrow>
     if ret < 0 then (ret, t0, t1, w) else
     (case mxl371x_write_mem32 b MXL371X_TSENS_CTRL_REG 0x01130103 w of
        (ret, w) \<Rightarrow>
     if ret < 0 then (ret, t0, t1, w) else
     (case mxl371x_read_mem32 b MXL371X_TSENS_DATA_REG t0 (usleep_range 30000 40000 w) of
        (ret, t0, w) \<Rightarrow>
     if ret < 0 then (ret, t0, t1, w) else
     (case mxl371x_write_mem32 b MXL371X_TSENS_CTRL_REG 0x01130003 w of
        (ret, w) \<Rightarrow>
     if ret < 0 then (ret, t0, t1, w) else
     (case mxl371x_write_mem32 b MXL371X_RADIO_TSENS_REG2 0x00000411 w of
        (ret, w) \<Rightarrow>
     if ret < 0 then (ret, t0, t1, w) else
     (case mxl371x_write_mem32 b MXL371X_TSENS_CTRL_REG 0x01130003 w of
        (ret, w) \<Rightarrow>
     if ret < 0 then (ret, t0, t1, w) else
     (case mxl371x_write_mem32 b MXL371X_TSENS_CTRL_REG 0x01130103 w of
        (ret, w) \<Rightarrow>
     if ret < 0 then (ret, t0, t1, w) else
     (case mxl371x_read_mem32 b MXL371X_TSENS_DATA_REG t1 (usleep_range 30000 40000 w) of
        (ret, t1, w) \<Rightarrow>
     if ret < 0 then (ret, t0, t1, w) else
     (0, t0, t1, w)))))))))))"

text \<open>
  \<open>mxl371x_calc_temp\<close> returns a C \<open>int\<close>: a 32-bit word read with \<open>sint\<close>. Its locals
  \<open>delta\<close> and \<open>temp\<close> are \<open>s64\<close>: 64-bit words, multiplied with wrap-around and divided
  with the truncating signed division of C (\<open>s64_div\<close>: both operands read with \<open>sint\<close>,
  the quotient rounded towards zero). \<open>(s64)(t1 - t0)\<close> widens the unsigned 32-bit
  difference, and \<open>(int)temp\<close> keeps the low 32 bits.
\<close>

definition s64_div :: "u64 \<Rightarrow> u64 \<Rightarrow> u64" where
  "s64_div a b = word_of_int (sint a sdiv sint b)"

definition mxl371x_calc_temp :: "u32 \<Rightarrow> u32 \<Rightarrow> 32 word" where
  "mxl371x_calc_temp t0 t1 =
     (if t1 < t0 then word_of_int (- EINVAL)
      else
        (let delta = (ucast (t1 - t0) :: u64);
             temp = s64_div (delta * MXL371X_TSENS_COEFF_A) MXL371X_TSENS_RSSI_MAX;
             temp = temp - MXL371X_TSENS_COEFF_B
         in (ucast temp :: 32 word)))"

datatype hwmon_sensor_types = hwmon_temp | hwmon_other_type
datatype hwmon_temp_attributes = hwmon_temp_input | hwmon_temp_other_attr

text \<open>\<open>mxl371x_hwmon_read\<close>: \<open>*val\<close> is a \<open>long\<close>, given as the integer it holds.\<close>

definition mxl371x_hwmon_read ::
  "'s mdio_bus \<Rightarrow> hwmon_sensor_types \<Rightarrow> hwmon_temp_attributes \<Rightarrow> int \<Rightarrow> 's world \<Rightarrow>
   int \<times> int \<times> 's world" where
  "mxl371x_hwmon_read b type attr val w =
     (if type \<noteq> hwmon_temp then (- EOPNOTSUPP, val, w)
      else
        (case attr of
           hwmon_temp_input \<Rightarrow>
             (case mxl371x_read_temp_raw b 0 0 w of
                (ret, t0, t1, w) \<Rightarrow>
              if ret < 0 then (ret, val, w) else
              (let temp = mxl371x_calc_temp t0 t1 in
               if sint temp = - EINVAL then (- EINVAL, val, w)
               else (0, sint temp, w)))
         | hwmon_temp_other_attr \<Rightarrow> (- EOPNOTSUPP, val, w)))"

section \<open>Driver state\<close>

record mxl371x_stats =
  tx_packets :: u64
  tx_bytes :: u64
  tx_dropped :: u64
  tx_broadcast :: u64
  tx_multicast :: u64
  rx_packets :: u64
  rx_bytes :: u64
  rx_dropped :: u64
  rx_errors :: u64

text \<open>
  \<open>struct mxl371x_priv\<close>. Of the delayed work \<open>stats_poll\<close> the model keeps whether it is
  queued; \<open>soc_version\<close> (a formatted copy of the identity fields) and \<open>hwmon_dev\<close> are
  left out: no modelled function reads them.
\<close>

record mxl371x_priv =
  fw_loaded :: bool
  soc_chip_type :: u32
  device_id :: u32
  revision_id :: u32
  link_status :: u32
  moca_version :: u32
  phy_rate :: u32
  node_id :: u32
  nc_node_id :: u32
  lof :: u32
  network_state :: u32
  active_nodes :: u32
  security_enabled :: bool
  fw_name :: string
  stats :: mxl371x_stats
  stats_poll :: bool

section \<open>Statistics and status readers\<close>

text \<open>
  One line of \<open>mxl371x_update_stats\<close>: \<open>mxl371x_read_mem64(phydev, addr, &priv->stats.f)\<close>.
  The output parameter is the counter itself, read by \<open>get\<close> and stored by \<open>put\<close>.
\<close>

definition read_stat ::
  "'s mdio_bus \<Rightarrow> u32 \<Rightarrow> (mxl371x_stats \<Rightarrow> u64) \<Rightarrow> (u64 \<Rightarrow> mxl371x_stats \<Rightarrow> mxl371x_stats) \<Rightarrow>
   mxl371x_priv \<Rightarrow> 's world \<Rightarrow> int \<times> mxl371x_priv \<times> 's world" where
  "read_stat b addr get put priv w =
     (case mxl371x_read_mem64 b addr (get (stats priv)) w of
        (ret, v, w) \<Rightarrow> (ret, priv\<lparr>stats := put v (stats priv)\<rparr>, w))"

text \<open>
  \<open>mxl371x_update_stats\<close> returns nothing; the model returns the final \<open>ret\<close>, on which
  the warning is logged when it is negative.
\<close>

definition mxl371x_update_stats ::
  "'s mdio_bus \<Rightarrow> mxl371x_priv \<Rightarrow> 's world \<Rightarrow> int \<times> mxl371x_priv \<times> 's world" where
  "mxl371x_update_stats b priv w =
     (let (ret, priv, w) = read_stat b MOCA_STATS_TX_TOTAL_PKTS tx_packets (\<lambda>v s. s\<lparr>tx_packets := v\<rparr>) priv w;
          (r, priv, w) = read_stat b MOCA_STATS_TX_TOTAL_BYTES tx_bytes (\<lambda>v s. s\<lparr>tx_bytes := v\<rparr>) priv w;
          ret = ret OR r;
          (r, priv, w) = read_stat b MOCA_STATS_TX_DROPPED_PKTS tx_dropped (\<lambda>v s. s\<lparr>tx_dropped := v\<rparr>) priv w;
          ret = ret OR r;
          (r, priv, w) = read_stat b MOCA_STATS_TX_BCAST_PKTS tx_broadcast (\<lambda>v s. s\<lparr>tx_broadcast := v\<rparr>) priv w;
          ret = ret OR r;
          (r, priv, w) = read_stat b MOCA_STATS_TX_MCAST_PKTS tx_multicast (\<lambda>v s. s\<lparr>tx_multicast := v\<rparr>) priv w;
          ret = ret OR r;
          (r, priv, w) = read_stat b MOCA_STATS_RX_TOTAL_PKTS rx_packets (\<lambda>v s. s\<lparr>rx_packets := v\<rparr>) priv w;
          ret = ret OR r;
          (r, priv, w) = read_stat b MOCA_STATS_RX_TOTAL_BYTES rx_bytes (\<lambda>v s. s\<lparr>rx_bytes := v\<rparr>) priv w;
          ret = ret OR r;
          (r, priv, w) = read_stat b MOCA_STATS_RX_DROPPED_PKTS rx_dropped (\<lambda>v s. s\<lparr>rx_dropped := v\<rparr>) priv w;
          ret = ret OR r;
          (r, priv, w) = read_stat b MOCA_STATS_RX_ERROR_PKTS rx_errors (\<lambda>v s. s\<lparr>rx_errors := v\<rparr>) priv w;
          ret = ret OR r
      in (ret, priv, w))"

text \<open>
  One block of \<open>mxl371x_read_moca_status\<close>:
  \<open>if (mxl371x_read_mem32(phydev, addr, &val) == 0) priv->f = ...; else ret = -EIO;\<close>
  with the local \<open>val\<close> and the running \<open>ret\<close> passed through; \<open>store\<close> is the assignment
  to the field.
\<close>

definition read_status_field ::
  "'s mdio_bus \<Rightarrow> u32 \<Rightarrow> (u32 \<Rightarrow> mxl371x_priv \<Rightarrow> mxl371x_priv) \<Rightarrow>
   int \<times> u32 \<times> mxl371x_priv \<times> 's world \<Rightarrow> int \<times> u32 \<times> mxl371x_priv \<times> 's world" where
  "read_status_field b addr store st =
     (case st of (ret, val, priv, w) \<Rightarrow>
        (case mxl371x_read_mem32 b addr val w of
           (r, val, w) \<Rightarrow>
           if r = 0 then (ret, val, store val priv, w)
           else (- EIO, val, priv, w)))"

text \<open>As for the statistics, the model returns the final \<open>ret\<close> that decides the warning.\<close>

definition mxl371x_read_moca_status ::
  "'s mdio_bus \<Rightarrow> mxl371x_priv \<Rightarrow> 's world \<Rightarrow> int \<times> mxl371x_priv \<times> 's world" where
  "mxl371x_read_moca_status b priv w =
     (let st = (0, 0, priv, w);
          st = read_status_field b MOCA_LINK_STATUS_REG
                 (\<lambda>val p. p\<lparr>link_status := val AND MOCA_LINK_STATUS_MASK\<rparr>) st;
          st = read_status_field b MOCA_LINK_PHY_RATE_REG
                 (\<lambda>val p. p\<lparr>phy_rate := val AND 0xffff\<rparr>) st;
          st = read_status_field b MOCA_LINK_MOCA_VER_REG
                 (\<lambda>val p. p\<lparr>moca_version := val AND 0xff\<rparr>) st;
          st = read_status_field b MOCA_LINK_NODE_ID_REG
                 (\<lambda>val p. p\<lparr>node_id := val AND 0xff\<rparr>) st;
          st = read_status_field b MOCA_LINK_NC_NODE_ID_REG
                 (\<lambda>val p. p\<lparr>nc_node_id := val AND 0xff\<rparr>) st;
          st = read_status_field b MOCA_LINK_LOF_REG
                 (\<lambda>val p. p\<lparr>lof := val\<rparr>) st;
          st = read_status_field b MOCA_LINK_NETWORK_STATE_REG
                 (\<lambda>val p. p\<lparr>network_state := val AND 0xff\<rparr>) st;
          st = read_status_field b MOCA_LINK_ACTIVE_NODES_REG
                 (\<lambda>val p. p\<lparr>active_nodes := val\<rparr>) st;
          st = read_status_field b MOCA_SECURITY_STATUS_REG
                 (\<lambda>val p. p\<lparr>security_enabled := (val AND MOCA_SECURITY_ENABLED \<noteq> 0)\<rparr>) st
      in (case st of (ret, val, priv, w) \<Rightarrow> (ret, priv, w)))"

text \<open>
  \<open>mxl371x_stats_poll_work(work)\<close>. Its \<open>priv\<close> is
  \<open>container_of(work, struct mxl371x_priv, stats_poll.work)\<close>, the driver state that holds
  the work. Its \<open>phydev\<close> is \<open>container_of((void *)priv, struct phy_device, priv)\<close>: the
  macro takes the address of a member and gives the address of the structure around it,
  and here it is handed the value of \<open>priv\<close>, the address of the driver state, where the
  address of the member \<open>priv\<close> of the device's \<open>struct phy_device\<close> would be needed. So
  \<open>phydev\<close> is not the device the other callbacks are given: \<open>phydev->attached_dev\<close>, the
  bus of \<open>phydev\<close> and \<open>phydev->priv\<close> are what the memory at the computed address holds.

  \<open>struct phy_device\<close> is not part of this source, so that content is a parameter of the
  model, \<open>phydev\<close>: whether \<open>attached_dev\<close> is set there, the bus the transfers of the two
  readers go through, and the address found in the member \<open>priv\<close>. Driver states are kept
  in a store, by address, so that the state the readers write to (at \<open>pd_priv phydev\<close>)
  and the state that holds the work (at \<open>p\<close>) can be one state or two; states at
  different addresses do not overlap. The result is \<open>None\<close> when an address that is
  dereferenced holds no driver state. The work queues itself again at the end.
\<close>

record 's phy_device =
  pd_attached_dev :: bool
  pd_bus :: "'s mdio_bus"
  pd_priv :: nat

definition mxl371x_stats_poll_work ::
  "'s phy_device \<Rightarrow> nat \<Rightarrow> (nat \<rightharpoonup> mxl371x_priv) \<Rightarrow> 's world \<Rightarrow>
   ((nat \<rightharpoonup> mxl371x_priv) \<times> 's world) option" where
  "mxl371x_stats_poll_work phydev p privs w =
     (case privs p of
        None \<Rightarrow> None
      | Some priv \<Rightarrow>
          (case (if fw_loaded priv \<and> pd_attached_dev phydev then
                   (case privs (pd_priv phydev) of
                      None \<Rightarrow> None
                    | Some q \<Rightarrow>
                        (case mxl371x_update_stats (pd_bus phydev) q w of
                           (ret, q, w) \<Rightarrow>
                           (case mxl371x_read_moca_status (pd_bus phydev) q w of
                              (ret, q, w) \<Rightarrow> Some (privs(pd_priv phydev \<mapsto> q), w))))
                 else Some (privs, w)) of
             None \<Rightarrow> None
           | Some (privs, w) \<Rightarrow>
               (case privs p of
                  None \<Rightarrow> None
                | Some priv \<Rightarrow> Some (privs(p \<mapsto> priv\<lparr>stats_poll := True\<rparr>), w))))"

section \<open>Firmware loader\<close>

definition mxl371x_check_firmware_running :: "'s mdio_bus \<Rightarrow> 's world \<Rightarrow> int \<times> 's world" where
  "mxl371x_check_firmware_running b w =
     (case mxl371x_read_mem32 b MXL371X_FW_STATUS_REG 0 w of
        (ret, fw_status, w) \<Rightarrow>
        if ret < 0 then (0, w)
        else if fw_status AND MXL371X_FW_RUNNING \<noteq> 0 then (1, w)
        else if fw_status AND MXL371X_FW_ERROR \<noteq> 0 then (0, w)
        else (0, w))"

text \<open>
  The inner loop of the upload,
  \<open>for (j = 0; j < 4 && (i + j) < fw->size; j++) word |= ((u32)fw->data[i + j]) << (j * 8);\<close>
  started with \<open>j = 0\<close> and \<open>word = 0\<close>. The index \<open>i + j\<close> is below the size where the
  buffer is read.
\<close>

function fw_word :: "u8 list \<Rightarrow> nat \<Rightarrow> nat \<Rightarrow> u32 \<Rightarrow> u32" where
  "fw_word data i j word =
     (if j < 4 \<and> i + j < length data
      then fw_word data i (j + 1) (word OR push_bit (j * 8) (ucast (data ! (i + j)) :: u32))
      else word)"
  by pat_completeness auto
termination
  by (relation "measure (\<lambda>(data, i, j, word). 4 - j)") auto

text \<open>
  The upload loop \<open>for (i = 0; i < fw->size; i += 4)\<close>. The counter \<open>i\<close> is a \<open>u32\<close>;
  the loop runs only after the size check, so \<open>i + 4\<close> stays below \<open>2 ^ 32\<close> and \<open>i\<close> is a
  natural number here. The result is \<open>Some ret\<close> when the loop was left by
  \<open>goto release_fw\<close> with that \<open>ret\<close>, and \<open>None\<close> when it ran to its end.
\<close>

function fw_upload :: "'s mdio_bus \<Rightarrow> u8 list \<Rightarrow> nat \<Rightarrow> 's world \<Rightarrow> int option \<times> 's world" where
  "fw_upload b data i w =
     (if i < length data then
        (let word = fw_word data i 0 0 in
         (case mxl371x_write_mem32 b (MXL371X_FW_BASE_ADDR + of_nat i) word w of
            (ret, w) \<Rightarrow>
            if ret < 0 then (Some ret, w)
            else fw_upload b data (i + 4) w))
      else (None, w))"
  by pat_completeness auto
termination
  by (relation "measure (\<lambda>(b, data, i, w). length data - i)") auto

text \<open>
  The ready poll \<open>for (i = 0; i < 50; i++)\<close> with the timeout that follows it, up to the
  label \<open>release_fw\<close>: the result is the \<open>ret\<close> the function returns, and the driver state
  with \<open>fw_loaded\<close> set where the loop sets it.
\<close>

function fw_poll ::
  "'s mdio_bus \<Rightarrow> nat \<Rightarrow> u32 \<Rightarrow> mxl371x_priv \<Rightarrow> 's world \<Rightarrow> int \<times> mxl371x_priv \<times> 's world" where
  "fw_poll b i fw_status priv w =
     (if i < 50 then
        (case mxl371x_read_mem32 b MXL371X_FW_STATUS_REG fw_status w of
           (ret, fw_status, w) \<Rightarrow>
           if ret < 0 then (ret, priv, w)
           else if fw_status AND MXL371X_FW_RUNNING \<noteq> 0 then (0, priv\<lparr>fw_loaded := True\<rparr>, w)
           else if fw_status AND MXL371X_FW_ERROR \<noteq> 0 then (- EIO, priv, w)
           else fw_poll b (i + 1) fw_status priv (msleep 100 w))
      else (- ETIMEDOUT, priv, w))"
  by pat_completeness auto
termination
  by (relation "measure (\<lambda>(b, i, fw_status, priv, w). 50 - i)") auto

declare fw_word.simps [simp del] fw_upload.simps [simp del] fw_poll.simps [simp del]

text \<open>
  \<open>mxl371x_load_firmware\<close>. \<open>request_firmware\<close> is the firmware storage: for a name it
  gives its return code and the image.
\<close>

definition mxl371x_load_firmware ::
  "'s mdio_bus \<Rightarrow> (string \<Rightarrow> int \<times> u8 list) \<Rightarrow> mxl371x_priv \<Rightarrow> 's world \<Rightarrow>
   int \<times> mxl371x_priv \<times> 's world" where
  "mxl371x_load_firmware b request_firmware priv w =
     (if fw_loaded priv then (0, priv, w)
      else
        (case mxl371x_check_firmware_running b w of
           (running, w) \<Rightarrow>
        if running \<noteq> 0 then (0, priv\<lparr>fw_loaded := True\<rparr>, w)
        else
          (case request_firmware (fw_name priv) of
             (ret, data) \<Rightarrow>
          if ret \<noteq> 0 then (ret, priv, w)
          else if length data = 0 \<or> length data > MXL371X_MAX_FW_SIZE then (- EINVAL, priv, w)
          else
            (case mxl371x_write_mem32 b SRE_CPU_SRC_SEL_CSR 0x8 w of
               (ret, w) \<Rightarrow>
            if ret < 0 then (ret, priv, w)
            else
              (case fw_upload b data 0 (msleep 100 w) of
                 (Some ret, w) \<Rightarrow> (ret, priv, w)
               | (None, w) \<Rightarrow>
                 (case mxl371x_write_mem32 b SRE_CPU_SRC_SEL_CSR 0x0 w of
                    (ret, w) \<Rightarrow>
                  if ret < 0 then (ret, priv, w)
                  else fw_poll b 0 0 priv (msleep 500 w)))))))"

section \<open>Identity and the remaining callbacks\<close>

definition is_zero_ether_addr :: "u8 list \<Rightarrow> bool" where
  "is_zero_ether_addr addr = list_all (\<lambda>x. x = 0) addr"

text \<open>The code after the label \<open>set_guid\<close>; \<open>mac\<close> holds the six bytes.\<close>

definition set_guid :: "'s mdio_bus \<Rightarrow> u8 list \<Rightarrow> 's world \<Rightarrow> int \<times> 's world" where
  "set_guid b mac w =
     (let mac_hi = push_bit 24 (ucast (mac ! 0) :: u32) OR push_bit 16 (ucast (mac ! 1))
                   OR push_bit 8 (ucast (mac ! 2)) OR ucast (mac ! 3);
          mac_lo = push_bit 24 (ucast (mac ! 4) :: u32) OR push_bit 16 (ucast (mac ! 5))
      in
      (case mxl371x_write_mem32 b MOCA_MAC_ADDR_HI mac_hi w of
         (ret, w) \<Rightarrow>
       if ret < 0 then (ret, w) else
       (case mxl371x_write_mem32 b MOCA_MAC_ADDR_LO mac_lo w of
          (ret, w) \<Rightarrow>
        if ret < 0 then (ret, w) else (0, w))))"

text \<open>
  \<open>mxl371x_set_default_guid\<close>. \<open>of_node\<close> is \<open>None\<close> without a device-tree node and
  otherwise what \<open>of_get_mac_address\<close> gives (its return code and the address);
  \<open>attached_dev\<close> is the address of the attached network device, if there is one;
  \<open>random\<close> are the three bytes \<open>get_random_bytes\<close> delivers, and the call is logged.
  Addresses are lists of \<open>ETH_ALEN = 6\<close> bytes.
\<close>

definition mxl371x_set_default_guid ::
  "'s mdio_bus \<Rightarrow> (int \<times> u8 list) option \<Rightarrow> u8 list option \<Rightarrow> u8 list \<Rightarrow> 's world \<Rightarrow>
   int \<times> 's world" where
  "mxl371x_set_default_guid b of_node attached_dev random w =
     (case mxl371x_read_mem32 b MOCA_MAC_ADDR_HI 0 w of
        (ret, mac_hi, w) \<Rightarrow>
     (case (if ret = 0 \<and> mac_hi \<noteq> 0 then
              (case mxl371x_read_mem32 b MOCA_MAC_ADDR_LO 0 w of
                 (ret, mac_lo, w) \<Rightarrow> (ret = 0 \<and> (mac_hi \<noteq> 0 \<or> mac_lo \<noteq> 0), w))
            else (False, w)) of
        (existing, w) \<Rightarrow>
     if existing then (0, w)
     else
       (case (case of_node of
                Some (r, mac) \<Rightarrow> if r = 0 then Some mac else None
              | None \<Rightarrow> None) of
          Some mac \<Rightarrow> set_guid b mac w
        | None \<Rightarrow>
       (case (case attached_dev of
                Some dev_addr \<Rightarrow> if \<not> is_zero_ether_addr dev_addr then Some dev_addr else None
              | None \<Rightarrow> None) of
          Some dev_addr \<Rightarrow>
            (let mac = dev_addr;
                 mac = mac[0 := mac ! 0 OR 0x02];
                 mac = mac[5 := mac ! 5 XOR 0x01]
             in set_guid b mac w)
        | None \<Rightarrow>
            set_guid b ([0x02, 0x24, 0x3e] @ random) (w\<lparr>trace := trace w @ [Random 3]\<rparr>)))))"






text \<open>\<open>mxl371x_probe\<close>: the driver state as \<open>devm_kzalloc\<close> gives it, all zero.\<close>

definition mxl371x_probe :: mxl371x_priv where
  "mxl371x_probe =
     \<lparr>fw_loaded = False, soc_chip_type = 0, device_id = 0, revision_id = 0, link_status = 0,
      moca_version = 0, phy_rate = 0, node_id = 0, nc_node_id = 0, lof = 0, network_state = 0,
      active_nodes = 0, security_enabled = False, fw_name = [],
      stats = \<lparr>tx_packets = 0, tx_bytes = 0, tx_dropped = 0, tx_broadcast = 0, tx_multicast = 0,
                rx_packets = 0, rx_bytes = 0, rx_dropped = 0, rx_errors = 0\<rparr>,
      stats_poll = False\<rparr>"


section \<open>Test devices\<close>

text \<open>
  A scripted bus: the device state counts the transfers made so far, and the \<open>n\<close>-th
  transfer is answered by \<open>reply n\<close>: a read returns it, a write fails with it when it is
  negative and returns 0 otherwise.
\<close>

definition script_bus :: "(nat \<Rightarrow> int) \<Rightarrow> nat mdio_bus" where
  "script_bus reply =
     \<lparr>bus_read = (\<lambda>regnum n. (reply n, Suc n)),
      bus_write = (\<lambda>regnum v n. (if reply n < 0 then reply n else 0, Suc n))\<rparr>"

definition start :: "'s \<Rightarrow> 's world" where
  "start d = \<lparr>dev = d, trace = []\<rparr>"

text \<open>
  Modelled from the spec: the fake bus of the transport round-trip test, "a fake bus that
  models the address/data-register protocol". It is a memory of 32-bit words behind the
  four-transfer protocol: the address high half, the address low half, then the data
  high half, then the data low half. The source gives the register indices: the address
  pair is \<open>MXL371X_MDIO_ADDR_REG\<close> and \<open>MXL371X_MDIO_ADDR_REG + 1\<close>, the data pair
  \<open>MXL371X_MDIO_DATA_REG\<close> and \<open>MXL371X_MDIO_DATA_REG + 1\<close>. With the source's values
  (\<open>0x0e\<close> and \<open>0x0f\<close>) the address low register and the data high register are the same
  index, so the device tells them apart by the position in the protocol, which it keeps
  in \<open>fk_phase\<close>. A transfer out of sequence fails with \<open>-EIO\<close>.
\<close>

datatype fake_phase = Idle | GotAddrHi | GotAddrLo | GotDataHi

record fake_dev =
  fk_phase :: fake_phase
  fk_addr_hi :: u16
  fk_addr_lo :: u16
  fk_data_hi :: u16
  fk_mem :: "u32 \<Rightarrow> u32"

definition fake_addr :: "fake_dev \<Rightarrow> u32" where
  "fake_addr d = push_bit 16 (ucast (fk_addr_hi d)) OR ucast (fk_addr_lo d)"

definition fake_write :: "u32 \<Rightarrow> u16 \<Rightarrow> fake_dev \<Rightarrow> int \<times> fake_dev" where
  "fake_write regnum v d =
     (if regnum = MXL371X_MDIO_ADDR_REG
        then (0, d\<lparr>fk_phase := GotAddrHi, fk_addr_hi := v\<rparr>)
      else if regnum = MXL371X_MDIO_ADDR_REG + 1 \<and> fk_phase d = GotAddrHi
        then (0, d\<lparr>fk_phase := GotAddrLo, fk_addr_lo := v\<rparr>)
      else if regnum = MXL371X_MDIO_DATA_REG \<and> fk_phase d = GotAddrLo
        then (0, d\<lparr>fk_phase := GotDataHi, fk_data_hi := v\<rparr>)
      else if regnum = MXL371X_MDIO_DATA_REG + 1 \<and> fk_phase d = GotDataHi
        then (0, d\<lparr>fk_phase := Idle,
                    fk_mem := (fk_mem d)(fake_addr d := push_bit 16 (ucast (fk_data_hi d)) OR ucast v)\<rparr>)
      else (- EIO, d\<lparr>fk_phase := Idle\<rparr>))"

definition fake_read :: "u32 \<Rightarrow> fake_dev \<Rightarrow> int \<times> fake_dev" where
  "fake_read regnum d =
     (if regnum = MXL371X_MDIO_DATA_REG \<and> fk_phase d = GotAddrLo
        then (uint (ucast (drop_bit 16 (fk_mem d (fake_addr d))) :: u16), d\<lparr>fk_phase := GotDataHi\<rparr>)
      else if regnum = MXL371X_MDIO_DATA_REG + 1 \<and> fk_phase d = GotDataHi
        then (uint (ucast (fk_mem d (fake_addr d)) :: u16), d\<lparr>fk_phase := Idle\<rparr>)
      else (- EIO, d\<lparr>fk_phase := Idle\<rparr>))"

definition fake_bus :: "fake_dev mdio_bus" where
  "fake_bus = \<lparr>bus_read = fake_read, bus_write = fake_write\<rparr>"

definition fake_init :: "(u32 \<Rightarrow> u32) \<Rightarrow> fake_dev" where
  "fake_init m = \<lparr>fk_phase = Idle, fk_addr_hi = 0, fk_addr_lo = 0, fk_data_hi = 0, fk_mem = m\<rparr>"

text \<open>
  For comparison, a device without a sequencer: it keeps what was last written to each
  register index, takes the address from the registers \<open>MXL371X_MDIO_ADDR_REG\<close> and
  \<open>MXL371X_MDIO_ADDR_REG + 1\<close>, stores a word when \<open>MXL371X_MDIO_DATA_REG + 1\<close> is written
  and delivers the halves of the addressed word when the data registers are read.
\<close>

record regfile_dev =
  rf_regs :: "u32 \<Rightarrow> u16"
  rf_mem :: "u32 \<Rightarrow> u32"

definition regfile_addr :: "regfile_dev \<Rightarrow> u32" where
  "regfile_addr d =
     push_bit 16 (ucast (rf_regs d MXL371X_MDIO_ADDR_REG))
       OR ucast (rf_regs d (MXL371X_MDIO_ADDR_REG + 1))"

definition regfile_write :: "u32 \<Rightarrow> u16 \<Rightarrow> regfile_dev \<Rightarrow> int \<times> regfile_dev" where
  "regfile_write regnum v d =
     (let d = d\<lparr>rf_regs := (rf_regs d)(regnum := v)\<rparr> in
      if regnum = MXL371X_MDIO_DATA_REG + 1
      then (0, d\<lparr>rf_mem := (rf_mem d)(regfile_addr d :=
                     push_bit 16 (ucast (rf_regs d MXL371X_MDIO_DATA_REG)) OR ucast v)\<rparr>)
      else (0, d))"

definition regfile_read :: "u32 \<Rightarrow> regfile_dev \<Rightarrow> int \<times> regfile_dev" where
  "regfile_read regnum d =
     (if regnum = MXL371X_MDIO_DATA_REG
        then (uint (ucast (drop_bit 16 (rf_mem d (regfile_addr d))) :: u16), d)
      else if regnum = MXL371X_MDIO_DATA_REG + 1
        then (uint (ucast (rf_mem d (regfile_addr d)) :: u16), d)
      else (uint (rf_regs d regnum), d))"

definition regfile_bus :: "regfile_dev mdio_bus" where
  "regfile_bus = \<lparr>bus_read = regfile_read, bus_write = regfile_write\<rparr>"

definition regfile_init :: regfile_dev where
  "regfile_init = \<lparr>rf_regs = (\<lambda>r. 0), rf_mem = (\<lambda>a. 0)\<rparr>"

section \<open>Notions the claims are stated with\<close>

text \<open>
  The transfers of one successful 32-bit read and of one successful 32-bit write, as the
  trace records them.
\<close>

definition read32_xfers :: "u32 \<Rightarrow> xfer list" where
  "read32_xfers addr =
     [Wr MXL371X_MDIO_ADDR_REG (ucast (drop_bit 16 addr AND 0xffff)),
      Wr (MXL371X_MDIO_ADDR_REG + 1) (ucast (addr AND 0xffff)),
      Rd MXL371X_MDIO_DATA_REG,
      Rd (MXL371X_MDIO_DATA_REG + 1)]"

definition write32_xfers :: "u32 \<Rightarrow> u32 \<Rightarrow> xfer list" where
  "write32_xfers addr val =
     [Wr MXL371X_MDIO_ADDR_REG (ucast (drop_bit 16 addr AND 0xffff)),
      Wr (MXL371X_MDIO_ADDR_REG + 1) (ucast (addr AND 0xffff)),
      Wr MXL371X_MDIO_DATA_REG (ucast (drop_bit 16 val AND 0xffff)),
      Wr (MXL371X_MDIO_DATA_REG + 1) (ucast (val AND 0xffff))]"

text \<open>
  The bus, seen from outside. \<open>run_xfers b xs w\<close> makes the transfers of the list \<open>xs\<close> on
  the bus one after the other and stops after the first that fails (returns a negative
  code); it gives the codes the bus returned, in order, and the bus as they leave it. So
  the last code is the failing one when \<open>some_failed\<close> holds of them. An entry of the list
  that is no transfer (a sleep, a draw of random bytes) is only logged. \<open>word32 hi lo\<close> is
  the 32-bit word whose halves are the low 16 bits of two such codes.
\<close>

fun run_xfers :: "'s mdio_bus \<Rightarrow> xfer list \<Rightarrow> 's world \<Rightarrow> int list \<times> 's world" where
  "run_xfers b [] w = ([], w)"
| "run_xfers b (Wr r v # xs) w =
     (case phy_write b r v w of
        (ret, w1) \<Rightarrow>
        if ret < 0 then ([ret], w1)
        else (case run_xfers b xs w1 of (rs, w2) \<Rightarrow> (ret # rs, w2)))"
| "run_xfers b (Rd r # xs) w =
     (case phy_read b r w of
        (ret, w1) \<Rightarrow>
        if ret < 0 then ([ret], w1)
        else (case run_xfers b xs w1 of (rs, w2) \<Rightarrow> (ret # rs, w2)))"
| "run_xfers b (x # xs) w = run_xfers b xs (w\<lparr>trace := trace w @ [x]\<rparr>)"

definition some_failed :: "int list \<Rightarrow> bool" where
  "some_failed rs = list_ex (\<lambda>r. r < 0) rs"

definition word32 :: "int \<Rightarrow> int \<Rightarrow> u32" where
  "word32 hi lo = push_bit 16 (ucast (word_of_int hi :: u16)) OR ucast (word_of_int lo :: u16)"

text \<open>Replies for the scripted bus: the \<open>n\<close>-th transfer answers \<open>n + 1\<close>.\<close>

definition ramp :: "nat \<Rightarrow> int" where
  "ramp n = int n + 1"

text \<open>Replies for the scripted bus: the \<open>k\<close>-th transfer fails with \<open>-EIO\<close>, the others answer \<open>v\<close>.\<close>

definition fail_at :: "nat \<Rightarrow> int \<Rightarrow> nat \<Rightarrow> int" where
  "fail_at k v n = (if n = k then - EIO else v)"

text \<open>
  The calibration formula of the specification, over the integers:
  \<open>(t1 - t0) * 1338680 / 524288 - 277770\<close>. For \<open>t1 \<ge> t0\<close> every intermediate value lies
  between \<open>-277770\<close> and \<open>2 ^ 53\<close>, so this is also its value in signed 64-bit arithmetic.
\<close>

definition calibration :: "u32 \<Rightarrow> u32 \<Rightarrow> int" where
  "calibration t0 t1 = (uint t1 - uint t0) * 1338680 div 524288 - 277770"

text \<open>
  Replies for the scripted bus under which the two data reads of \<open>mxl371x_read_temp_raw\<close>
  (its transfers 18, 19 and 38, 39) deliver the samples \<open>t0\<close> and \<open>t1\<close>.
\<close>

definition tsens_replies :: "u32 \<Rightarrow> u32 \<Rightarrow> nat \<Rightarrow> int" where
  "tsens_replies t0 t1 n =
     (if n = 18 then uint (drop_bit 16 t0)
      else if n = 19 then uint (t0 AND 0xffff)
      else if n = 38 then uint (drop_bit 16 t1)
      else if n = 39 then uint (t1 AND 0xffff)
      else 0)"

text \<open>
  The ready poll, seen from outside. \<open>poll_world b k w\<close> is the bus after \<open>k\<close> polls of the
  firmware status register, each followed by the 100 ms sleep; \<open>poll_obs b k w\<close> is what
  the next poll then gives (return code, status word, bus). A poll is quiet when it
  succeeds and shows neither the running bit nor the error bit. \<open>polls\<close> counts the polls
  in a trace: each 32-bit read starts with one write to \<open>MXL371X_MDIO_ADDR_REG\<close>.
\<close>

fun poll_world :: "'s mdio_bus \<Rightarrow> nat \<Rightarrow> 's world \<Rightarrow> 's world" where
  "poll_world b 0 w = w"
| "poll_world b (Suc k) w =
     msleep 100 (snd (snd (mxl371x_read_mem32 b MXL371X_FW_STATUS_REG 0 (poll_world b k w))))"

definition poll_obs :: "'s mdio_bus \<Rightarrow> nat \<Rightarrow> 's world \<Rightarrow> int \<times> u32 \<times> 's world" where
  "poll_obs b k w = mxl371x_read_mem32 b MXL371X_FW_STATUS_REG 0 (poll_world b k w)"

definition poll_quiet :: "int \<times> u32 \<times> 's world \<Rightarrow> bool" where
  "poll_quiet obs =
     (fst obs = 0 \<and> fst (snd obs) AND MXL371X_FW_RUNNING = 0 \<and> fst (snd obs) AND MXL371X_FW_ERROR = 0)"

definition poll_xfers :: "xfer list" where
  "poll_xfers = read32_xfers MXL371X_FW_STATUS_REG"

definition polls :: "xfer list \<Rightarrow> nat" where
  "polls tr = length (filter (\<lambda>x. case x of Wr r v \<Rightarrow> r = MXL371X_MDIO_ADDR_REG | _ \<Rightarrow> False) tr)"

text \<open>
  The upload, seen from outside. \<open>le32\<close> is the little-endian value of up to four bytes
  (the first byte is the least significant), \<open>fw_words\<close> cuts an image into
  \<open>ceil(N / 4)\<close> such words, and \<open>upload_xfers\<close> are the transfers of writing word \<open>k\<close> to
  \<open>MXL371X_FW_BASE_ADDR + 4 * k\<close>, in order.
\<close>

definition le32 :: "u8 list \<Rightarrow> u32" where
  "le32 bs = foldr (\<lambda>b acc. ucast b OR push_bit 8 acc) bs 0"

definition fw_words :: "u8 list \<Rightarrow> u32 list" where
  "fw_words data = map (\<lambda>k. le32 (take 4 (drop (4 * k) data))) [0..<(length data + 3) div 4]"

definition upload_xfers :: "u8 list \<Rightarrow> xfer list" where
  "upload_xfers data =
     concat (map (\<lambda>k. write32_xfers (MXL371X_FW_BASE_ADDR + of_nat (4 * k)) (fw_words data ! k))
                 [0..<(length data + 3) div 4])"

text \<open>
  Replies for the scripted bus: the \<open>k\<close>-th 32-bit access, counted from 0 with four
  transfers each, reads a word that shows the running bit, or the error bit (its low half
  is transfer \<open>4 * k + 3\<close>); a bus that answers 0 throughout; a six-byte image; a firmware
  storage without the image (\<open>-ENOENT\<close>). In a load of the six-byte image from cold the
  accesses 0 to 4 are the status check, the reset, the two words and the release, and
  access \<open>5 + j\<close> is poll \<open>j\<close>.
\<close>

definition running_at :: "nat \<Rightarrow> nat \<Rightarrow> int" where
  "running_at k n = (if n = 4 * k + 3 then 2 else 0)"

definition error_at :: "nat \<Rightarrow> nat \<Rightarrow> int" where
  "error_at k n = (if n = 4 * k + 3 then 4 else 0)"

definition silent :: "nat \<Rightarrow> int" where
  "silent n = 0"

definition image6 :: "u8 list" where
  "image6 = [0x11, 0x22, 0x33, 0x44, 0x55, 0x66]"

definition no_firmware :: "string \<Rightarrow> int \<times> u8 list" where
  "no_firmware name = (- 2, [])"

text \<open>
  A firmware storage that holds the image \<open>data\<close> under every name. \<open>cold_xfers data\<close> is
  what a load of \<open>data\<close> from cold does on the bus before it starts to poll: the status
  read that finds no firmware running, the write of \<open>0x8\<close> to \<open>SRE_CPU_SRC_SEL_CSR\<close> and
  100 ms, the upload, the write of \<open>0x0\<close> to \<open>SRE_CPU_SRC_SEL_CSR\<close> and 500 ms.
\<close>

definition firmware :: "u8 list \<Rightarrow> string \<Rightarrow> int \<times> u8 list" where
  "firmware data name = (0, data)"

definition cold_xfers :: "u8 list \<Rightarrow> xfer list" where
  "cold_xfers data =
     poll_xfers @ write32_xfers SRE_CPU_SRC_SEL_CSR 0x8 @ [Msleep 100] @ upload_xfers data @
     write32_xfers SRE_CPU_SRC_SEL_CSR 0x0 @ [Msleep 500]"

text \<open>
  The batch readers, seen from outside. \<open>read32_all\<close> makes the 32-bit read at every
  address of a list, one after the other, whatever the earlier ones returned, and gives
  for each its return code and what the shared local \<open>val\<close> holds after it;
  \<open>read64_all\<close> does the same with 64-bit reads, each with its own output, given with
  what it holds before. \<open>any_failed\<close> tells whether some return code is not zero.
\<close>

fun read32_all :: "'s mdio_bus \<Rightarrow> u32 list \<Rightarrow> u32 \<Rightarrow> 's world \<Rightarrow> (int \<times> u32) list \<times> 's world" where
  "read32_all b [] val w = ([], w)"
| "read32_all b (a # as) val w =
     (case mxl371x_read_mem32 b a val w of
        (r, v, w1) \<Rightarrow> (case read32_all b as v w1 of (rs, w2) \<Rightarrow> ((r, v) # rs, w2)))"

fun read64_all :: "'s mdio_bus \<Rightarrow> (u32 \<times> u64) list \<Rightarrow> 's world \<Rightarrow> (int \<times> u64) list \<times> 's world" where
  "read64_all b [] w = ([], w)"
| "read64_all b ((a, old) # as) w =
     (case mxl371x_read_mem64 b a old w of
        (r, v, w1) \<Rightarrow> (case read64_all b as w1 of (rs, w2) \<Rightarrow> ((r, v) # rs, w2)))"

definition status_regs :: "u32 list" where
  "status_regs =
     [MOCA_LINK_STATUS_REG, MOCA_LINK_PHY_RATE_REG, MOCA_LINK_MOCA_VER_REG, MOCA_LINK_NODE_ID_REG,
      MOCA_LINK_NC_NODE_ID_REG, MOCA_LINK_LOF_REG, MOCA_LINK_NETWORK_STATE_REG,
      MOCA_LINK_ACTIVE_NODES_REG, MOCA_SECURITY_STATUS_REG]"

definition stats_regs :: "mxl371x_stats \<Rightarrow> (u32 \<times> u64) list" where
  "stats_regs s =
     [(MOCA_STATS_TX_TOTAL_PKTS, tx_packets s), (MOCA_STATS_TX_TOTAL_BYTES, tx_bytes s),
      (MOCA_STATS_TX_DROPPED_PKTS, tx_dropped s), (MOCA_STATS_TX_BCAST_PKTS, tx_broadcast s),
      (MOCA_STATS_TX_MCAST_PKTS, tx_multicast s), (MOCA_STATS_RX_TOTAL_PKTS, rx_packets s),
      (MOCA_STATS_RX_TOTAL_BYTES, rx_bytes s), (MOCA_STATS_RX_DROPPED_PKTS, rx_dropped s),
      (MOCA_STATS_RX_ERROR_PKTS, rx_errors s)]"

definition any_failed :: "(int \<times> 'a) list \<Rightarrow> bool" where
  "any_failed rs = list_ex (\<lambda>x. fst x \<noteq> 0) rs"

text \<open>
  A driver state with a version and a drop counter from an earlier poll; a device memory
  that holds \<open>hi\<close> and \<open>lo\<close> in the two GUID registers.
\<close>

definition stale :: mxl371x_priv where
  "stale = mxl371x_probe\<lparr>moca_version := 0x25, stats := (stats mxl371x_probe)\<lparr>tx_dropped := 5\<rparr>\<rparr>"

definition guid_hw :: "u32 \<Rightarrow> u32 \<Rightarrow> u32 \<Rightarrow> u32" where
  "guid_hw hi lo a = (if a = MOCA_MAC_ADDR_HI then hi else if a = MOCA_MAC_ADDR_LO then lo else 0)"

lemmas eval_bus = mxl371x_write_mem32_def mxl371x_read_mem32_def phy_write_def phy_read_def
  usleep_range_def msleep_def script_bus_def start_def

section \<open>Transport: the 64-bit read and error atomicity\<close>

lemma read_mem32_ret_le0: "fst (mxl371x_read_mem32 b addr val w) \<le> 0"
  by (simp add: mxl371x_read_mem32_def Let_def split: prod.splits)

lemma read_mem32_err_keeps:
  "fst (mxl371x_read_mem32 b addr val w) \<noteq> 0 \<Longrightarrow>
   fst (snd (mxl371x_read_mem32 b addr val w)) = val"
  by (auto simp add: mxl371x_read_mem32_def Let_def split: prod.splits if_splits)

lemma read_mem64_err_keeps:
  "fst (mxl371x_read_mem64 b addr val w) \<noteq> 0 \<Longrightarrow>
   fst (snd (mxl371x_read_mem64 b addr val w)) = val"
  by (auto simp add: mxl371x_read_mem64_def split: prod.splits if_splits)

lemma read_mem64_ret_le0: "fst (mxl371x_read_mem64 b addr val w) \<le> 0"
proof -
  have "fst (mxl371x_read_mem32 b addr 0 w) \<le> 0"
    by (rule read_mem32_ret_le0)
  then show ?thesis
    by (auto simp add: mxl371x_read_mem64_def split: prod.splits)
qed

lemma read_mem32_ok_trace:
  "mxl371x_read_mem32 b addr val w = (0, v, w') \<Longrightarrow> trace w' = trace w @ read32_xfers addr"
  by (auto simp add: mxl371x_read_mem32_def phy_write_def phy_read_def read32_xfers_def Let_def
      split: prod.splits if_splits)

lemma write_mem32_ok_trace:
  "mxl371x_write_mem32 b addr val w = (ret, w') \<Longrightarrow> 0 \<le> ret \<Longrightarrow>
   trace w' = trace w @ write32_xfers addr val"
  by (auto simp add: mxl371x_write_mem32_def phy_write_def write32_xfers_def
      split: prod.splits if_splits)

text \<open>
  What \<open>*val\<close> holds on entry has no influence on the return code and the bus, and none
  on the value read when the read succeeds.
\<close>

lemma read_mem32_val_indep:
  "fst (mxl371x_read_mem32 b addr val w) = fst (mxl371x_read_mem32 b addr val' w) \<and>
   snd (snd (mxl371x_read_mem32 b addr val w)) = snd (snd (mxl371x_read_mem32 b addr val' w)) \<and>
   (fst (mxl371x_read_mem32 b addr val w) = 0 \<longrightarrow>
      fst (snd (mxl371x_read_mem32 b addr val w)) = fst (snd (mxl371x_read_mem32 b addr val' w)))"
  by (simp add: mxl371x_read_mem32_def Let_def split: prod.splits)

text \<open>
  The two reads in terms of the 16-bit transfers: each makes its transfers in order and
  stops at the first that fails.
\<close>

lemma run_xfers_failed_last:
  "run_xfers b xs w = (rs, w') \<Longrightarrow> some_failed rs \<Longrightarrow> last rs < 0"
  by (induction b xs w arbitrary: rs w' rule: run_xfers.induct)
     (auto simp add: some_failed_def split: prod.splits if_splits)

lemma run_xfers_append:
  "run_xfers b (xs @ ys) w =
     (case run_xfers b xs w of
        (rs, w1) \<Rightarrow>
          if some_failed rs then (rs, w1)
          else (case run_xfers b ys w1 of (rs', w2) \<Rightarrow> (rs @ rs', w2)))"
  by (induction b xs w rule: run_xfers.induct)
     (auto simp add: some_failed_def split: prod.splits)

lemma run_read32_length:
  "run_xfers b (read32_xfers A) w = (rs, w') \<Longrightarrow> \<not> some_failed rs \<Longrightarrow> length rs = 4"
  by (auto simp add: read32_xfers_def some_failed_def split: prod.splits if_splits)

lemma read_mem32_run:
  "mxl371x_read_mem32 b A val w =
     (case run_xfers b (read32_xfers A) w of
        (rs, w') \<Rightarrow>
          if some_failed rs then (last rs, val, w')
          else (0, word32 (rs ! 2) (rs ! 3), w'))"
  by (auto simp add: mxl371x_read_mem32_def read32_xfers_def some_failed_def word32_def Let_def
      split: prod.splits)

lemma read_mem64_run:
  "mxl371x_read_mem64 b A val w =
     (case run_xfers b (read32_xfers A @ read32_xfers (A + 4)) w of
        (rs, w') \<Rightarrow>
          if some_failed rs then (last rs, val, w')
          else (0, push_bit 32 (ucast (word32 (rs ! 6) (rs ! 7))) OR ucast (word32 (rs ! 2) (rs ! 3)), w'))"
proof -
  obtain rs1 w1 where a: "run_xfers b (read32_xfers A) w = (rs1, w1)"
    by (cases "run_xfers b (read32_xfers A) w") auto
  obtain rs2 w2 where c: "run_xfers b (read32_xfers (A + 4)) w1 = (rs2, w2)"
    by (cases "run_xfers b (read32_xfers (A + 4)) w1") auto
  show ?thesis
  proof (cases "some_failed rs1")
    case True
    then have "last rs1 < 0"
      using a by (rule run_xfers_failed_last [rotated])
    then show ?thesis
      using True a by (simp add: mxl371x_read_mem64_def read_mem32_run run_xfers_append)
  next
    case False
    then have l1: "length rs1 = 4" using a by (rule run_read32_length [rotated])
    show ?thesis
    proof (cases "some_failed rs2")
      case True
      then have n: "last rs2 < 0"
        using c by (rule run_xfers_failed_last [rotated])
      have ne: "rs2 \<noteq> []" using True by (auto simp add: some_failed_def)
      have "some_failed (rs1 @ rs2)" using True by (simp add: some_failed_def)
      then show ?thesis
        using True False a c n ne by (simp add: mxl371x_read_mem64_def read_mem32_run run_xfers_append)
    next
      case f2: False
      then have l2: "length rs2 = 4" using c by (rule run_read32_length [rotated])
      have nf: "\<not> some_failed (rs1 @ rs2)" using False f2 by (simp add: some_failed_def)
      have "(rs1 @ rs2) ! 2 = rs1 ! 2" "(rs1 @ rs2) ! 3 = rs1 ! 3"
        "(rs1 @ rs2) ! 6 = rs2 ! 2" "(rs1 @ rs2) ! 7 = rs2 ! 3"
        using l1 l2 by (simp_all add: nth_append)
      then show ?thesis
        using False f2 nf a c by (simp add: mxl371x_read_mem64_def read_mem32_run run_xfers_append)
    qed
  qed
qed

text \<open>
  C9. For every address \<open>A\<close>, \<open>mxl371x_read_mem64\<close> is the 32-bit read at \<open>A\<close> followed,
  on the bus the first read leaves, by the 32-bit read at \<open>A + 4\<close>. When the first read
  fails, its error is returned and the second is not made; when the second fails, its
  error is returned; in both cases the output keeps its value. When both succeed the
  result is \<open>(hi << 32) | lo\<close> with \<open>lo\<close> the word at \<open>A\<close> and \<open>hi\<close> the word at \<open>A + 4\<close>,
  and the bus has seen the transfers of the read at \<open>A\<close> and then those of the read at
  \<open>A + 4\<close>.

  On the bus itself: the 64-bit read makes the eight 16-bit transfers of the two reads in
  order, up to the first that fails. If one of them fails, the read returns the negative
  code of that transfer, makes no further transfer and leaves the output as it was. If
  none fails it returns 0 and the word whose four halves, from the top, are the data
  read by the transfers 6, 7, 2 and 3. The same holds of the 32-bit read and its four
  transfers.
\<close>

theorem read_mem64_composition:
  "(case mxl371x_read_mem32 b A x w of
      (r1, lo, w1) \<Rightarrow>
        (case mxl371x_read_mem32 b (A + 4) y w1 of
           (r2, hi, w2) \<Rightarrow>
             (r1 \<noteq> 0 \<longrightarrow> mxl371x_read_mem64 b A val w = (r1, val, w1) \<and> r1 < 0) \<and>
             (r1 = 0 \<and> r2 \<noteq> 0 \<longrightarrow> mxl371x_read_mem64 b A val w = (r2, val, w2) \<and> r2 < 0) \<and>
             (r1 = 0 \<and> r2 = 0 \<longrightarrow>
                mxl371x_read_mem64 b A val w = (0, push_bit 32 (ucast hi) OR ucast lo, w2) \<and>
                trace w2 = trace w @ read32_xfers A @ read32_xfers (A + 4)))) \<and>
   (case run_xfers b (read32_xfers A @ read32_xfers (A + 4)) w of
      (rs, w') \<Rightarrow>
        (some_failed rs \<longrightarrow>
           mxl371x_read_mem64 b A val w = (last rs, val, w') \<and> last rs < 0) \<and>
        (\<not> some_failed rs \<longrightarrow>
           mxl371x_read_mem64 b A val w
             = (0, push_bit 32 (ucast (word32 (rs ! 6) (rs ! 7))) OR ucast (word32 (rs ! 2) (rs ! 3)),
                w'))) \<and>
   (case run_xfers b (read32_xfers A) w of
      (rs, w') \<Rightarrow>
        (some_failed rs \<longrightarrow> mxl371x_read_mem32 b A x w = (last rs, x, w') \<and> last rs < 0) \<and>
        (\<not> some_failed rs \<longrightarrow> mxl371x_read_mem32 b A x w = (0, word32 (rs ! 2) (rs ! 3), w')))"
proof -
  obtain r1 lo w1 where a: "mxl371x_read_mem32 b A x w = (r1, lo, w1)"
    by (cases "mxl371x_read_mem32 b A x w") auto
  obtain r2 hi w2 where c: "mxl371x_read_mem32 b (A + 4) y w1 = (r2, hi, w2)"
    by (cases "mxl371x_read_mem32 b (A + 4) y w1") auto
  obtain r1' lo' w1' where a': "mxl371x_read_mem32 b A 0 w = (r1', lo', w1')"
    by (cases "mxl371x_read_mem32 b A 0 w") auto
  have e1: "r1' = r1" "w1' = w1" "r1 = 0 \<longrightarrow> lo' = lo"
    using read_mem32_val_indep [of b A x w 0] a a' by auto
  obtain r2' hi' w2' where c': "mxl371x_read_mem32 b (A + 4) 0 w1 = (r2', hi', w2')"
    by (cases "mxl371x_read_mem32 b (A + 4) 0 w1") auto
  have e2: "r2' = r2" "w2' = w2" "r2 = 0 \<longrightarrow> hi' = hi"
    using read_mem32_val_indep [of b "A + 4" y w1 0] c c' by auto
  have n1: "r1 \<le> 0" using read_mem32_ret_le0 [of b A x w] a by simp
  have n2: "r2 \<le> 0" using read_mem32_ret_le0 [of b "A + 4" y w1] c by simp
  have t: "r1 = 0 \<and> r2 = 0 \<longrightarrow> trace w2 = trace w @ read32_xfers A @ read32_xfers (A + 4)"
  proof
    assume z: "r1 = 0 \<and> r2 = 0"
    have "trace w1 = trace w @ read32_xfers A"
      using read_mem32_ok_trace [of b A x w lo w1] a z by simp
    moreover have "trace w2 = trace w1 @ read32_xfers (A + 4)"
      using read_mem32_ok_trace [of b "A + 4" y w1 hi w2] c z by simp
    ultimately show "trace w2 = trace w @ read32_xfers A @ read32_xfers (A + 4)" by simp
  qed
  have reads: "(case mxl371x_read_mem32 b A x w of
      (r1, lo, w1) \<Rightarrow>
        (case mxl371x_read_mem32 b (A + 4) y w1 of
           (r2, hi, w2) \<Rightarrow>
             (r1 \<noteq> 0 \<longrightarrow> mxl371x_read_mem64 b A val w = (r1, val, w1) \<and> r1 < 0) \<and>
             (r1 = 0 \<and> r2 \<noteq> 0 \<longrightarrow> mxl371x_read_mem64 b A val w = (r2, val, w2) \<and> r2 < 0) \<and>
             (r1 = 0 \<and> r2 = 0 \<longrightarrow>
                mxl371x_read_mem64 b A val w = (0, push_bit 32 (ucast hi) OR ucast lo, w2) \<and>
                trace w2 = trace w @ read32_xfers A @ read32_xfers (A + 4))))"
    using a c a' c' e1 e2 n1 n2 t
    by (auto simp add: mxl371x_read_mem64_def)
  obtain rs8 v8 where r8: "run_xfers b (read32_xfers A @ read32_xfers (A + 4)) w = (rs8, v8)"
    by (cases "run_xfers b (read32_xfers A @ read32_xfers (A + 4)) w") auto
  have bus64: "(case run_xfers b (read32_xfers A @ read32_xfers (A + 4)) w of
      (rs, w') \<Rightarrow>
        (some_failed rs \<longrightarrow>
           mxl371x_read_mem64 b A val w = (last rs, val, w') \<and> last rs < 0) \<and>
        (\<not> some_failed rs \<longrightarrow>
           mxl371x_read_mem64 b A val w
             = (0, push_bit 32 (ucast (word32 (rs ! 6) (rs ! 7))) OR ucast (word32 (rs ! 2) (rs ! 3)),
                w')))"
    using run_xfers_failed_last [OF r8] read_mem64_run [of b A val w]
    by (simp add: r8)
  obtain rs4 v4 where r4: "run_xfers b (read32_xfers A) w = (rs4, v4)"
    by (cases "run_xfers b (read32_xfers A) w") auto
  have bus32: "(case run_xfers b (read32_xfers A) w of
      (rs, w') \<Rightarrow>
        (some_failed rs \<longrightarrow> mxl371x_read_mem32 b A x w = (last rs, x, w') \<and> last rs < 0) \<and>
        (\<not> some_failed rs \<longrightarrow> mxl371x_read_mem32 b A x w = (0, word32 (rs ! 2) (rs ! 3), w')))"
    using run_xfers_failed_last [OF r4] read_mem32_run [of b A x w]
    by (simp add: r4)
  show ?thesis
    using reads bus64 bus32 by (rule conjI [OF _ conjI])
qed

text \<open>
  On the scripted bus that answers 1, 2, 3, ... the read at \<open>0x0c000000\<close> gets the halves
  3 and 4, the read at \<open>0x0c000004\<close> the halves 7 and 8. On a bus whose transfer 6, the
  first data read of the high word, fails with \<open>-EIO\<close>, the 64-bit read returns \<open>-EIO\<close>
  after seven transfers and leaves the output.
\<close>

theorem read_mem64_composition_witness:
  "mxl371x_read_mem64 (script_bus ramp) 0x0c000000 0 (start 0)
     = (0, 0x0007000800030004,
        \<lparr>dev = 8, trace = read32_xfers 0x0c000000 @ read32_xfers 0x0c000004\<rparr>) \<and>
   run_xfers (script_bus (fail_at 6 9)) (read32_xfers 0x0c000000 @ read32_xfers 0x0c000004) (start 0)
     = ([0, 0, 9, 9, 0, 0, - EIO],
        \<lparr>dev = 7, trace = read32_xfers 0x0c000000 @ [Wr 0x0e 0x0c00, Wr 0x0f 4, Rd 0x0f]\<rparr>) \<and>
   mxl371x_read_mem64 (script_bus (fail_at 6 9)) 0x0c000000 0x1122334455667788 (start 0)
     = (- EIO, 0x1122334455667788,
        \<lparr>dev = 7, trace = read32_xfers 0x0c000000 @ [Wr 0x0e 0x0c00, Wr 0x0f 4, Rd 0x0f]\<rparr>)"
proof -
  have r: "run_xfers (script_bus (fail_at 6 9)) (read32_xfers 0x0c000000 @ read32_xfers 0x0c000004) (start 0)
     = ([0, 0, 9, 9, 0, 0, - EIO],
        \<lparr>dev = 7, trace = read32_xfers 0x0c000000 @ [Wr 0x0e 0x0c00, Wr 0x0f 4, Rd 0x0f]\<rparr>)"
    by (simp add: read32_xfers_def phy_write_def phy_read_def script_bus_def fail_at_def start_def
        EIO_def MXL371X_MDIO_ADDR_REG_def MXL371X_MDIO_DATA_REG_def)
  have f: "some_failed [0, 0, 9, 9, 0, 0, - EIO]"
    by (simp add: some_failed_def EIO_def)
  have A: "mxl371x_read_mem64 (script_bus ramp) 0x0c000000 0 (start 0)
     = (0, 0x0007000800030004,
        \<lparr>dev = 8, trace = read32_xfers 0x0c000000 @ read32_xfers 0x0c000004\<rparr>)"
    using read_mem64_composition [of "script_bus ramp" "0x0c000000" 0 "start 0" 0 0]
    by (simp add: mxl371x_read_mem32_def phy_write_def phy_read_def script_bus_def ramp_def start_def
        read32_xfers_def MXL371X_MDIO_ADDR_REG_def MXL371X_MDIO_DATA_REG_def)
  have B: "mxl371x_read_mem64 (script_bus (fail_at 6 9)) 0x0c000000 0x1122334455667788 (start 0)
     = (- EIO, 0x1122334455667788,
        \<lparr>dev = 7, trace = read32_xfers 0x0c000000 @ [Wr 0x0e 0x0c00, Wr 0x0f 4, Rd 0x0f]\<rparr>)"
    using read_mem64_composition [where b = "script_bus (fail_at 6 9)" and A = "0x0c000000"
        and val = "0x1122334455667788" and w = "start 0" and x = 0 and y = 0] f
    by (simp add: r)
  show ?thesis
    using A B r by simp
qed

text \<open>
  C10. Whenever \<open>mxl371x_read_mem32\<close> or \<open>mxl371x_read_mem64\<close> returns an error (a return
  code other than zero), the output parameter holds what it held on entry: it is written
  on the zero-return path only.
\<close>

theorem read_mem_error_atomic:
  "(fst (mxl371x_read_mem32 b A val w) \<noteq> 0 \<longrightarrow> fst (snd (mxl371x_read_mem32 b A val w)) = val) \<and>
   (fst (mxl371x_read_mem64 b A val64 w) \<noteq> 0 \<longrightarrow> fst (snd (mxl371x_read_mem64 b A val64 w)) = val64)"
  using read_mem32_err_keeps [of b A val w] read_mem64_err_keeps [of b A val64 w]
  by blast

text \<open>
  A bus whose third transfer fails: the 32-bit read fails at its first data read; the
  64-bit read at \<open>A\<close> gets its low word with the transfers 0 to 3 and fails while setting
  the address of the high word (transfer 5). Both leave the output as it was.
\<close>

theorem read_mem_error_atomic_witness:
  "mxl371x_read_mem32 (script_bus (fail_at 2 7)) 0x0c100000 0xdeadbeef (start 0)
     = (- EIO, 0xdeadbeef,
        \<lparr>dev = 3, trace = [Wr 0x0e 0x0c10, Wr 0x0f 0, Rd 0x0f]\<rparr>) \<and>
   fst (mxl371x_read_mem64 (script_bus (fail_at 5 7)) 0x0c000000 0x1122334455667788 (start 0)) = - EIO \<and>
   fst (snd (mxl371x_read_mem64 (script_bus (fail_at 5 7)) 0x0c000000 0x1122334455667788 (start 0)))
     = 0x1122334455667788"
  using read_mem_error_atomic [of "script_bus (fail_at 2 7)" "0x0c100000" "0xdeadbeef" "start 0"
      "0x1122334455667788"]
    read_mem_error_atomic [of "script_bus (fail_at 5 7)" "0x0c000000" "0xdeadbeef" "start 0"
      "0x1122334455667788"]
  by (simp add: mxl371x_read_mem64_def mxl371x_read_mem32_def phy_write_def phy_read_def
      script_bus_def fail_at_def start_def EIO_def
      MXL371X_MDIO_ADDR_REG_def MXL371X_MDIO_DATA_REG_def)

section \<open>Transport: round trip over the fake bus\<close>

text \<open>The address low register and the data high register are one register index.\<close>

lemma addr_lo_reg_is_data_hi_reg: "MXL371X_MDIO_ADDR_REG + 1 = MXL371X_MDIO_DATA_REG"
  by (simp add: MXL371X_MDIO_ADDR_REG_def MXL371X_MDIO_DATA_REG_def)

lemma m16: "(0xffff :: u32) = mask 16" by (simp add: mask_eq_exp_minus_1)

lemma halves_masked:
  "push_bit 16 (ucast (ucast (drop_bit 16 v AND 0xffff :: u32) :: u16) :: u32)
     OR ucast (ucast (v AND 0xffff) :: u16) = v"
  unfolding m16 by (rule bit_word_eqI) (auto simp add: bit_simps)

lemma halves:
  "push_bit 16 (ucast (ucast (drop_bit 16 v :: u32) :: u16) :: u32) OR ucast (ucast v :: u16) = v"
  by (rule bit_word_eqI) (auto simp add: bit_simps)

lemma fake_write_mem32:
  "mxl371x_write_mem32 fake_bus A v w =
     (0, \<lparr>dev = (dev w)\<lparr>fk_phase := Idle,
                         fk_addr_hi := ucast (drop_bit 16 A AND 0xffff),
                         fk_addr_lo := ucast (A AND 0xffff),
                         fk_data_hi := ucast (drop_bit 16 v AND 0xffff),
                         fk_mem := (fk_mem (dev w))(A := v)\<rparr>,
           trace = trace w @ write32_xfers A v\<rparr>)"
  by (simp add: mxl371x_write_mem32_def phy_write_def fake_bus_def fake_write_def fake_addr_def
      write32_xfers_def MXL371X_MDIO_ADDR_REG_def MXL371X_MDIO_DATA_REG_def halves_masked)

lemma fake_read_mem32:
  "mxl371x_read_mem32 fake_bus A x w =
     (0, fk_mem (dev w) A,
      \<lparr>dev = (dev w)\<lparr>fk_phase := Idle,
                      fk_addr_hi := ucast (drop_bit 16 A AND 0xffff),
                      fk_addr_lo := ucast (A AND 0xffff)\<rparr>,
        trace = trace w @ read32_xfers A\<rparr>)"
  by (simp add: mxl371x_read_mem32_def phy_write_def phy_read_def fake_bus_def fake_write_def
      fake_read_def fake_addr_def read32_xfers_def MXL371X_MDIO_ADDR_REG_def
      MXL371X_MDIO_DATA_REG_def halves_masked halves)

text \<open>
  C1. Over the fake bus, from any state of the device (whatever its memory and whatever
  transfer it saw last), for every address \<open>A\<close> and value \<open>v\<close>: \<open>mxl371x_write_mem32\<close> of
  \<open>v\<close> to \<open>A\<close> succeeds, and \<open>mxl371x_read_mem32\<close> of \<open>A\<close> after it succeeds and delivers
  exactly \<open>v\<close>.
\<close>

theorem write_read_roundtrip:
  "(case mxl371x_write_mem32 fake_bus A v w of
      (r, w1) \<Rightarrow>
        r = 0 \<and>
        (case mxl371x_read_mem32 fake_bus A x w1 of
           (r', v', w2) \<Rightarrow> r' = 0 \<and> v' = v))"
  by (simp add: fake_write_mem32 fake_read_mem32)

theorem write_read_roundtrip_witness:
  "fst (snd (mxl371x_read_mem32 fake_bus 0x0c100020 0
       (snd (mxl371x_write_mem32 fake_bus 0x0c100020 0xcafe1234 (start (fake_init (\<lambda>a. 0))))))) = 0xcafe1234"
  using write_read_roundtrip [where A = "0x0c100020" and v = "0xcafe1234"
      and w = "start (fake_init (\<lambda>a. 0))" and x = 0]
  by (simp split: prod.splits)

text \<open>
  The round trip rests on the sequencer. On the device that goes by register index
  alone, the data high half overwrites the address low half (they share the index
  \<open>0x0f\<close>): writing \<open>0x00010000\<close> to address 0 stores it at address 1, and reading address
  0 back gives 0.
\<close>

lemma regfile_bus_clobbers_address:
  "(case mxl371x_write_mem32 regfile_bus 0 0x00010000 (start regfile_init) of
      (r, w1) \<Rightarrow>
        r = 0 \<and> rf_mem (dev w1) 0 = 0 \<and> rf_mem (dev w1) 1 = 0x00010000 \<and>
        (case mxl371x_read_mem32 regfile_bus 0 0 w1 of
           (r', v', w2) \<Rightarrow> r' = 0 \<and> v' = 0))"
  by (simp add: mxl371x_write_mem32_def mxl371x_read_mem32_def phy_write_def phy_read_def
      regfile_bus_def regfile_write_def regfile_read_def regfile_addr_def regfile_init_def
      start_def MXL371X_MDIO_ADDR_REG_def MXL371X_MDIO_DATA_REG_def Let_def)


section \<open>Temperature calibration\<close>

lemma sdiv_nonneg: "0 \<le> (p::int) \<Longrightarrow> 0 < q \<Longrightarrow> p sdiv q = p div q"
  by (simp add: signed_divide_int_def sgn_if)

lemma s64_div_of_int:
  assumes "0 \<le> p" "p < 2 ^ 63"
  shows "s64_div (word_of_int p) 524288 = word_of_int (p div 524288)"
proof -
  have "sint (word_of_int p :: u64) = p"
    using assms by (simp add: sint_sbintrunc' signed_take_bit_int_eq_self)
  moreover have "sint (524288 :: u64) = 524288" by simp
  ultimately show ?thesis
    using assms by (simp add: s64_div_def sdiv_nonneg)
qed

lemma delta_of_int:
  assumes "t0 \<le> t1"
  shows "(ucast (t1 - t0 :: u32) :: u64) = word_of_int (uint t1 - uint t0)"
proof -
  have "uint (t1 - t0) = uint t1 - uint t0"
    using assms by (simp add: uint_minus_simple_alt [symmetric])
  then have a: "uint (ucast (t1 - t0) :: u64) = uint t1 - uint t0"
    by (simp add: uint_up_ucast is_up)
  have "(ucast (t1 - t0) :: u64) = word_of_int (uint (ucast (t1 - t0) :: u64))"
    by simp
  then show ?thesis
    by (simp only: a)
qed


lemma ucast_s64_int: "(ucast (word_of_int k :: u64) :: 32 word) = word_of_int k"
  by (simp add: ucast_down_wi is_down)

lemma calc_temp_of_int:
  assumes "t0 \<le> t1"
  shows "mxl371x_calc_temp t0 t1 = word_of_int (calibration t0 t1)"
proof -
  define d where "d = uint t1 - uint t0"
  define p where "p = d * 1338680"
  define q where "q = p div 524288"
  have d0: "0 \<le> d" unfolding d_def using assms by (simp add: word_le_def)
  have "uint t1 < 4294967296" using uint_lt2p [of t1] by simp
  moreover have "0 \<le> uint t0" by simp
  ultimately have d1: "d < 4294967296" unfolding d_def by linarith
  have p0: "0 \<le> p" using d0 by (simp add: p_def)
  have p1: "p < 2 ^ 63" using d1 by (simp add: p_def)
  have e1: "(ucast (t1 - t0) :: u64) = word_of_int d"
    using delta_of_int [OF assms] by (simp only: d_def)
  have e2: "(word_of_int d :: u64) * 1338680 = word_of_int p"
    by (simp add: p_def)
  have e3: "s64_div (word_of_int p) 524288 = word_of_int q"
    using s64_div_of_int [OF p0 p1] by (simp only: q_def)
  have e4: "(word_of_int q :: u64) - 277770 = word_of_int (q - 277770)"
    by simp
  have "mxl371x_calc_temp t0 t1 = (word_of_int (q - 277770) :: 32 word)"
    using assms
    by (simp only: mxl371x_calc_temp_def Let_def MXL371X_TSENS_COEFF_A_def
        MXL371X_TSENS_COEFF_B_def MXL371X_TSENS_RSSI_MAX_def e1 e2 e3 e4 ucast_s64_int
        not_less [symmetric] if_False)
  then show ?thesis
    by (simp only: calibration_def q_def p_def d_def)
qed

lemma calibration_bounds:
  assumes "t0 \<le> t1" "uint t1 - uint t0 \<le> 841161097"
  shows "- 277770 \<le> calibration t0 t1" "calibration t0 t1 < 2 ^ 31"
proof -
  define d where "d = uint t1 - uint t0"
  have d0: "0 \<le> d" unfolding d_def using assms by (simp add: word_le_def)
  have d1: "d \<le> 841161097" unfolding d_def using assms by simp
  have "0 \<le> d * 1338680 div 524288" using d0 by simp
  then show "- 277770 \<le> calibration t0 t1" by (simp add: calibration_def d_def)
  have "d * 1338680 \<le> 841161097 * 1338680" using d1 by simp
  then have "d * 1338680 div 524288 \<le> 841161097 * 1338680 div 524288"
    by (rule zdiv_mono1) simp
  then show "calibration t0 t1 < 2 ^ 31" by (simp add: calibration_def d_def)
qed


text \<open>
  C3, as stated, fails: the result is a C \<open>int\<close>, and for the samples \<open>t0 = 0\<close>,
  \<open>t1 = 0xFFFFFFFF\<close> the formula gives 10966188787, which the cast \<open>(int)temp\<close> cuts to
  \<open>-1918713101\<close>.
\<close>

theorem calc_temp_truncates:
  "(0::u32) \<le> 0xFFFFFFFF \<and>
   sint (mxl371x_calc_temp 0 0xFFFFFFFF) = - 1918713101 \<and>
   calibration 0 0xFFFFFFFF = 10966188787 \<and>
   sint (mxl371x_calc_temp 0 0xFFFFFFFF) \<noteq> calibration 0 0xFFFFFFFF"
  by (simp add: mxl371x_calc_temp_def s64_div_def MXL371X_TSENS_COEFF_A_def
      MXL371X_TSENS_COEFF_B_def MXL371X_TSENS_RSSI_MAX_def signed_divide_int_def calibration_def)

lemma calc_temp_invalid: "t1 < t0 \<Longrightarrow> sint (mxl371x_calc_temp t0 t1) = - EINVAL"
  by (simp add: mxl371x_calc_temp_def EINVAL_def)

lemma calc_temp_sint:
  "t0 \<le> t1 \<Longrightarrow> sint (mxl371x_calc_temp t0 t1) = signed_take_bit 31 (calibration t0 t1)"
  by (simp add: calc_temp_of_int sint_sbintrunc')

lemma calc_temp_exact:
  assumes "t0 \<le> t1" "uint t1 - uint t0 \<le> 841161097"
  shows "sint (mxl371x_calc_temp t0 t1) = calibration t0 t1"
proof -
  have "- (2 ^ 31) \<le> calibration t0 t1"
    using calibration_bounds(1) [OF assms] by simp
  then show ?thesis
    using calibration_bounds(2) [OF assms] calc_temp_sint [OF assms(1)]
    by (simp add: signed_take_bit_int_eq_self)
qed

text \<open>
  C3, amended. If \<open>t1 < t0\<close>, \<open>mxl371x_calc_temp\<close> returns \<open>-EINVAL\<close>. If \<open>t1 \<ge> t0\<close>, it
  returns the calibration formula cut to a signed 32-bit integer, which is the formula
  itself whenever \<open>t1 - t0 \<le> 841161097\<close>. \<open>mxl371x_hwmon_read\<close>, once the raw samples
  were read, fails with \<open>-EINVAL\<close> and leaves \<open>*val\<close> alone if \<open>t1 < t0\<close>, and delivers the
  formula's value if \<open>t1 \<ge> t0\<close>, \<open>t1 - t0 \<le> 841161097\<close> and that value is not \<open>-EINVAL\<close>.
\<close>

theorem calc_temp_calibration:
  "(t1 < t0 \<longrightarrow> sint (mxl371x_calc_temp t0 t1) = - EINVAL) \<and>
   (t0 \<le> t1 \<longrightarrow> sint (mxl371x_calc_temp t0 t1) = signed_take_bit 31 (calibration t0 t1)) \<and>
   (t0 \<le> t1 \<and> uint t1 - uint t0 \<le> 841161097 \<longrightarrow>
      sint (mxl371x_calc_temp t0 t1) = calibration t0 t1) \<and>
   (case mxl371x_read_temp_raw b 0 0 w of
      (r, s0, s1, w') \<Rightarrow>
        (0 \<le> r \<and> s1 < s0 \<longrightarrow>
           mxl371x_hwmon_read b hwmon_temp hwmon_temp_input val w = (- EINVAL, val, w')) \<and>
        (0 \<le> r \<and> s0 \<le> s1 \<and> uint s1 - uint s0 \<le> 841161097 \<and> calibration s0 s1 \<noteq> - EINVAL \<longrightarrow>
           mxl371x_hwmon_read b hwmon_temp hwmon_temp_input val w = (0, calibration s0 s1, w')))"
proof -
  obtain r s0 s1 w' where raw: "mxl371x_read_temp_raw b 0 0 w = (r, s0, s1, w')"
    by (cases "mxl371x_read_temp_raw b 0 0 w") auto
  have h1: "0 \<le> r \<and> s1 < s0 \<longrightarrow>
      mxl371x_hwmon_read b hwmon_temp hwmon_temp_input val w = (- EINVAL, val, w')"
    using raw calc_temp_invalid [of s1 s0]
    by (auto simp add: mxl371x_hwmon_read_def Let_def)
  have h2: "0 \<le> r \<and> s0 \<le> s1 \<and> uint s1 - uint s0 \<le> 841161097 \<and> calibration s0 s1 \<noteq> - EINVAL \<longrightarrow>
      mxl371x_hwmon_read b hwmon_temp hwmon_temp_input val w = (0, calibration s0 s1, w')"
    using raw calc_temp_exact [of s0 s1]
    by (auto simp add: mxl371x_hwmon_read_def Let_def)
  show ?thesis
    using raw h1 h2 calc_temp_invalid [of t1 t0] calc_temp_sint [of t0 t1] calc_temp_exact [of t0 t1]
    by simp
qed

text \<open>
  The specification's examples: \<open>calc(0, 524288) = 1060910\<close>, and \<open>calc(100, 50)\<close> fails.
\<close>

theorem calc_temp_calibration_witness:
  "sint (mxl371x_calc_temp 0 524288) = 1060910 \<and>
   sint (mxl371x_calc_temp 100 50) = - EINVAL \<and>
   fst (mxl371x_hwmon_read (script_bus (tsens_replies 100 50)) hwmon_temp hwmon_temp_input 77 (start 0))
     = - EINVAL \<and>
   fst (snd (mxl371x_hwmon_read (script_bus (tsens_replies 100 50)) hwmon_temp hwmon_temp_input 77 (start 0)))
     = 77 \<and>
   fst (snd (mxl371x_hwmon_read (script_bus (tsens_replies 0 524288)) hwmon_temp hwmon_temp_input 77 (start 0)))
     = 1060910"
proof -
  have a: "fst (mxl371x_read_temp_raw (script_bus (tsens_replies 0 524288)) 0 0 (start 0)) = 0"
    "fst (snd (mxl371x_read_temp_raw (script_bus (tsens_replies 0 524288)) 0 0 (start 0))) = 0"
    "fst (snd (snd (mxl371x_read_temp_raw (script_bus (tsens_replies 0 524288)) 0 0 (start 0)))) = 524288"
    by (simp_all add: mxl371x_read_temp_raw_def eval_bus tsens_replies_def)
  have b: "fst (mxl371x_read_temp_raw (script_bus (tsens_replies 100 50)) 0 0 (start 0)) = 0"
    "fst (snd (mxl371x_read_temp_raw (script_bus (tsens_replies 100 50)) 0 0 (start 0))) = 100"
    "fst (snd (snd (mxl371x_read_temp_raw (script_bus (tsens_replies 100 50)) 0 0 (start 0)))) = 50"
    by (simp_all add: mxl371x_read_temp_raw_def eval_bus tsens_replies_def)
  show ?thesis
    using calc_temp_calibration [where ?t0.0 = 0 and ?t1.0 = 524288
        and b = "script_bus (tsens_replies 0 524288)" and w = "start 0" and val = 77]
      calc_temp_calibration [where ?t0.0 = 100 and ?t1.0 = 50
        and b = "script_bus (tsens_replies 100 50)" and w = "start 0" and val = 77]
      a b
    by (simp add: case_prod_unfold calibration_def EINVAL_def)
qed


text \<open>
  The error is returned in band: the samples \<open>t0 = 0\<close>, \<open>t1 = 108779\<close> are in order and
  calibrate to \<open>-22\<close>, which is \<open>-EINVAL\<close>, so \<open>mxl371x_hwmon_read\<close> reports them as
  invalid.
\<close>

lemma hwmon_read_in_band_error:
  "calibration 0 108779 = - EINVAL \<and>
   fst (mxl371x_hwmon_read (script_bus (tsens_replies 0 108779)) hwmon_temp hwmon_temp_input 77 (start 0))
     = - EINVAL"
proof -
  have "fst (mxl371x_read_temp_raw (script_bus (tsens_replies 0 108779)) 0 0 (start 0)) = 0"
    "fst (snd (mxl371x_read_temp_raw (script_bus (tsens_replies 0 108779)) 0 0 (start 0))) = 0"
    "fst (snd (snd (mxl371x_read_temp_raw (script_bus (tsens_replies 0 108779)) 0 0 (start 0)))) = 108779"
    by (simp_all add: mxl371x_read_temp_raw_def eval_bus tsens_replies_def)
  moreover have "sint (mxl371x_calc_temp 0 108779) = - 22"
    using calc_temp_exact [of 0 108779] by (simp add: calibration_def)
  ultimately show ?thesis
    by (simp add: mxl371x_hwmon_read_def case_prod_unfold Let_def calibration_def EINVAL_def)
qed

section \<open>Firmware loader: idempotence\<close>

lemma fw_poll_ok_loaded:
  "fw_poll b i st priv w = (0, priv', w') \<Longrightarrow> fw_loaded priv'"
proof (induction b i st priv w rule: fw_poll.induct)
  case (1 b i fw_status priv w)
  show ?case
  proof (cases "i < 50")
    case True
    obtain ret st' w1 where r: "mxl371x_read_mem32 b MXL371X_FW_STATUS_REG fw_status w = (ret, st', w1)"
      by (cases "mxl371x_read_mem32 b MXL371X_FW_STATUS_REG fw_status w") auto
    show ?thesis
      using "1.prems" "1.IH" [OF True r [symmetric] refl] True r
      by (subst (asm) fw_poll.simps) (auto simp add: EIO_def split: if_splits)
  next
    case False
    with "1.prems" show ?thesis
      by (subst (asm) fw_poll.simps) (simp add: ETIMEDOUT_def)
  qed
qed


lemma fw_upload_abort: "fw_upload b data i w = (Some ret, w') \<Longrightarrow> ret < 0"
proof (induction b data i w rule: fw_upload.induct)
  case (1 b data i w)
  show ?case
  proof (cases "i < length data")
    case True
    obtain r w1 where wr:
      "mxl371x_write_mem32 b (MXL371X_FW_BASE_ADDR + of_nat i) (fw_word data i 0 0) w = (r, w1)"
      by (cases "mxl371x_write_mem32 b (MXL371X_FW_BASE_ADDR + of_nat i) (fw_word data i 0 0) w") auto
    show ?thesis
    proof (cases "r < 0")
      case True
      then show ?thesis
        using "1.prems" \<open>i < length data\<close> wr
        by (simp add: fw_upload.simps [of b data i])
    next
      case False
      then have "fw_upload b data (i + 4) w1 = (Some ret, w')"
        using "1.prems" \<open>i < length data\<close> wr
        by (simp add: fw_upload.simps [of b data i])
      then show ?thesis
        using "1.IH" [OF \<open>i < length data\<close> refl wr [symmetric] False] by simp
    qed
  next
    case False
    then show ?thesis
      using "1.prems" by (simp add: fw_upload.simps [of b data i])
  qed
qed

text \<open>
  C5. When \<open>fw_loaded\<close> is set, \<open>mxl371x_load_firmware\<close> returns 0 and leaves the driver
  state, the device and the trace as they were: no read, no write, no sleep. And a call
  that returned 0 has set \<open>fw_loaded\<close>, so the call after it is such a no-op.
\<close>

theorem load_firmware_idempotent:
  "(fw_loaded priv \<longrightarrow> mxl371x_load_firmware b request_firmware priv w = (0, priv, w)) \<and>
   (mxl371x_load_firmware b request_firmware priv w = (0, priv', w') \<longrightarrow>
      fw_loaded priv' \<and> mxl371x_load_firmware b request_firmware' priv' w' = (0, priv', w'))"
proof -
  have first: "fw_loaded p \<Longrightarrow> mxl371x_load_firmware b rf p v = (0, p, v)" for p rf v
    by (simp add: mxl371x_load_firmware_def)
  have "fw_loaded priv'" if "mxl371x_load_firmware b request_firmware priv w = (0, priv', w')"
    using that fw_poll_ok_loaded fw_upload_abort
    by (fastforce simp add: mxl371x_load_firmware_def EINVAL_def
        split: if_splits prod.splits option.splits)
  then show ?thesis
    using first by blast
qed

text \<open>
  A warm boot: the first call reads the status once and finds the firmware running; the
  second call does nothing.
\<close>

theorem load_firmware_idempotent_witness:
  "mxl371x_load_firmware (script_bus (running_at 0)) no_firmware mxl371x_probe (start 0)
     = (0, mxl371x_probe\<lparr>fw_loaded := True\<rparr>, \<lparr>dev = 4, trace = poll_xfers\<rparr>) \<and>
   mxl371x_load_firmware (script_bus (running_at 0)) no_firmware
       (mxl371x_probe\<lparr>fw_loaded := True\<rparr>) \<lparr>dev = 4, trace = poll_xfers\<rparr>
     = (0, mxl371x_probe\<lparr>fw_loaded := True\<rparr>, \<lparr>dev = 4, trace = poll_xfers\<rparr>)"
proof -
  have f: "mxl371x_load_firmware (script_bus (running_at 0)) no_firmware mxl371x_probe (start 0)
     = (0, mxl371x_probe\<lparr>fw_loaded := True\<rparr>, \<lparr>dev = 4, trace = poll_xfers\<rparr>)"
    by (simp add: mxl371x_load_firmware_def mxl371x_check_firmware_running_def eval_bus
        running_at_def mxl371x_probe_def poll_xfers_def read32_xfers_def MXL371X_FW_RUNNING_def)
  show ?thesis
    using load_firmware_idempotent [where b = "script_bus (running_at 0)"
        and request_firmware = no_firmware and request_firmware' = no_firmware
        and priv = mxl371x_probe and w = "start 0"
        and priv' = "mxl371x_probe\<lparr>fw_loaded := True\<rparr>"
        and w' = "\<lparr>dev = 4, trace = poll_xfers\<rparr>"] f
    by simp
qed


section \<open>Firmware loader: the ready poll\<close>

lemma fw_poll_st_indep: "fw_poll b i st priv w = fw_poll b i 0 priv w"
proof (cases "i < 50")
  case True
  obtain r v w1 where a: "mxl371x_read_mem32 b MXL371X_FW_STATUS_REG st w = (r, v, w1)"
    by (cases "mxl371x_read_mem32 b MXL371X_FW_STATUS_REG st w") auto
  obtain r' v' w1' where c: "mxl371x_read_mem32 b MXL371X_FW_STATUS_REG 0 w = (r', v', w1')"
    by (cases "mxl371x_read_mem32 b MXL371X_FW_STATUS_REG 0 w") auto
  have e: "r' = r" "w1' = w1" "r = 0 \<longrightarrow> v' = v"
    using read_mem32_val_indep [of b MXL371X_FW_STATUS_REG st w 0] a c by auto
  have n: "r \<le> 0" using read_mem32_ret_le0 [of b MXL371X_FW_STATUS_REG st w] a by simp
  show ?thesis
  proof (cases "r < 0")
    case True
    then show ?thesis using a c e \<open>i < 50\<close>
      by (simp add: fw_poll.simps [of b i st] fw_poll.simps [of b i 0])
  next
    case False
    then have "r = 0" using n by simp
    then show ?thesis using a c e \<open>i < 50\<close>
      by (simp add: fw_poll.simps [of b i st] fw_poll.simps [of b i 0])
  qed
next
  case False
  then show ?thesis
    by (simp add: fw_poll.simps [of b i st] fw_poll.simps [of b i 0])
qed

lemma fw_poll_after_quiet:
  "i + k \<le> 50 \<Longrightarrow> (\<forall>j<k. poll_quiet (poll_obs b j w)) \<Longrightarrow>
   fw_poll b i 0 priv w = fw_poll b (i + k) 0 priv (poll_world b k w)"
proof (induction k)
  case 0
  then show ?case by simp
next
  case (Suc k)
  have ih: "fw_poll b i 0 priv w = fw_poll b (i + k) 0 priv (poll_world b k w)"
    using Suc by simp
  have q: "poll_quiet (poll_obs b k w)" using Suc.prems by simp
  have lt: "i + k < 50" using Suc.prems by simp
  obtain r v w1 where a: "mxl371x_read_mem32 b MXL371X_FW_STATUS_REG 0 (poll_world b k w) = (r, v, w1)"
    by (cases "mxl371x_read_mem32 b MXL371X_FW_STATUS_REG 0 (poll_world b k w)") auto
  have "fw_poll b (i + k) 0 priv (poll_world b k w) = fw_poll b (i + k + 1) v priv (msleep 100 w1)"
    using q a lt by (simp add: fw_poll.simps [of b "i + k" 0] poll_quiet_def poll_obs_def)
  also have "\<dots> = fw_poll b (i + Suc k) 0 priv (poll_world b (Suc k) w)"
    using a fw_poll_st_indep [of b "i + k + 1" v] by simp
  finally show ?case using ih by simp
qed

lemma concat_replicate_snoc: "concat (replicate k x) @ x = concat (replicate (Suc k) x)"
  by (induction k) simp_all

lemma poll_world_trace:
  "(\<forall>j<k. poll_quiet (poll_obs b j w)) \<Longrightarrow>
   trace (poll_world b k w) = trace w @ concat (replicate k (poll_xfers @ [Msleep 100]))"
proof (induction k)
  case 0
  then show ?case by simp
next
  case (Suc k)
  have ih: "trace (poll_world b k w) = trace w @ concat (replicate k (poll_xfers @ [Msleep 100]))"
    using Suc by simp
  have q: "poll_quiet (poll_obs b k w)" using Suc.prems by simp
  obtain r v w1 where a: "mxl371x_read_mem32 b MXL371X_FW_STATUS_REG 0 (poll_world b k w) = (r, v, w1)"
    by (cases "mxl371x_read_mem32 b MXL371X_FW_STATUS_REG 0 (poll_world b k w)") auto
  have "r = 0" using q a by (simp add: poll_quiet_def poll_obs_def)
  then have "trace w1 = trace (poll_world b k w) @ poll_xfers"
    using read_mem32_ok_trace [of b MXL371X_FW_STATUS_REG 0 "poll_world b k w" v w1] a
    by (simp add: poll_xfers_def)
  then have "trace (poll_world b (Suc k) w)
      = trace w @ concat (replicate k (poll_xfers @ [Msleep 100])) @ (poll_xfers @ [Msleep 100])"
    using a ih by (simp add: msleep_def)
  also have "concat (replicate k (poll_xfers @ [Msleep 100])) @ (poll_xfers @ [Msleep 100])
      = concat (replicate (Suc k) (poll_xfers @ [Msleep 100]))"
    by (rule concat_replicate_snoc)
  finally show ?case .
qed


lemma polls_append: "polls (xs @ ys) = polls xs + polls ys"
  by (simp add: polls_def)

lemma read_mem32_polls:
  "polls (trace (snd (snd (mxl371x_read_mem32 b addr val w)))) = polls (trace w) + 1"
  by (simp add: mxl371x_read_mem32_def phy_write_def phy_read_def polls_def Let_def
      MXL371X_MDIO_ADDR_REG_def MXL371X_MDIO_DATA_REG_def split: prod.splits)

lemma fw_poll_polls:
  "polls (trace (snd (snd (fw_poll b i st priv w)))) \<le> polls (trace w) + (50 - i)"
proof (induction b i st priv w rule: fw_poll.induct)
  case (1 b i fw_status priv w)
  show ?case
  proof (cases "i < 50")
    case True
    obtain ret st' w1 where r: "mxl371x_read_mem32 b MXL371X_FW_STATUS_REG fw_status w = (ret, st', w1)"
      by (cases "mxl371x_read_mem32 b MXL371X_FW_STATUS_REG fw_status w") auto
    have p: "polls (trace w1) = polls (trace w) + 1"
      using read_mem32_polls [of b MXL371X_FW_STATUS_REG fw_status w] r by simp
    have s: "polls (trace (msleep 100 w1)) = polls (trace w1)"
      by (simp add: msleep_def polls_def)
    show ?thesis
      using "1.IH" [OF True r [symmetric] refl] True r p s
      by (subst fw_poll.simps) auto
  next
    case False
    then show ?thesis
      by (subst fw_poll.simps) simp
  qed
qed

lemma silent_quiet: "poll_quiet (poll_obs (script_bus silent) j w)"
  by (simp add: poll_obs_def poll_quiet_def eval_bus silent_def)

section \<open>Firmware loader: the upload\<close>

lemma fw_word_drop:
  "i \<le> length data \<Longrightarrow> fw_word data i j word = fw_word (drop i data) 0 j word"
proof (induction data i j word rule: fw_word.induct)
  case (1 data i j word)
  show ?case
  proof (cases "j < 4 \<and> i + j < length data")
    case True
    then show ?thesis
      using "1.IH" "1.prems"
      by (auto simp add: fw_word.simps [of data i j] fw_word.simps [of "drop i data" 0 j])
  next
    case False
    then show ?thesis
      using "1.prems"
      by (auto simp add: fw_word.simps [of data i j] fw_word.simps [of "drop i data" 0 j])
  qed
qed

lemma le32_Nil: "le32 [] = 0"
  by (simp add: le32_def)

lemma le32_Cons: "le32 (b # bs) = ucast b OR push_bit 8 (le32 bs)"
  by (simp add: le32_def)

lemma fw_word_from:
  "j \<le> 4 \<Longrightarrow>
   fw_word xs 0 j word = word OR push_bit (8 * j) (le32 (take (4 - j) (drop j xs)))"
proof (induction n \<equiv> "4 - j" arbitrary: j word)
  case 0
  then have "j = 4" by simp
  then show ?case
    by (simp add: fw_word.simps [of xs 0 4] le32_Nil)
next
  case (Suc n)
  show ?case
  proof (cases "j < length xs")
    case True
    have j4: "j < 4" using Suc.hyps(2) by simp
    have d: "drop j xs = xs ! j # drop (Suc j) xs"
      using True by (simp add: Cons_nth_drop_Suc)
    have t: "take (4 - j) (drop j xs) = xs ! j # take (4 - Suc j) (drop (Suc j) xs)"
      using j4 d by (simp add: take_Cons')
    have ih: "fw_word xs 0 (Suc j) (word OR push_bit (j * 8) (ucast (xs ! j)))
        = (word OR push_bit (j * 8) (ucast (xs ! j)))
            OR push_bit (8 * Suc j) (le32 (take (4 - Suc j) (drop (Suc j) xs)))"
      using Suc.hyps(1) [of "Suc j"] Suc.hyps(2) j4 by simp
    show ?thesis
      using True j4 ih
      by (simp add: fw_word.simps [of xs 0 j] t le32_Cons push_bit_or push_bit_push_bit
          or.assoc mult.commute add.commute)
  next
    case False
    then show ?thesis
      by (simp add: fw_word.simps [of xs 0 j] le32_Nil)
  qed
qed

lemma fw_word_le32: "fw_word xs 0 0 0 = le32 (take 4 xs)"
  using fw_word_from [of 0 xs 0] by simp

lemma fw_word_at: "i \<le> length data \<Longrightarrow> fw_word data i 0 0 = le32 (take 4 (drop i data))"
  using fw_word_drop [of i data 0 0] fw_word_le32 [of "drop i data"] by simp


lemma map_upt_shift: "map f [0..<Suc n] = f 0 # map (\<lambda>k. f (Suc k)) [0..<n]"
  by (induction n) simp_all

lemma ceil4_step:
  assumes "i < (l::nat)"
  shows "(l - i + 3) div 4 = Suc ((l - (i + 4) + 3) div 4)"
proof (cases "i + 4 \<le> l")
  case True
  then obtain m where m: "l = i + 4 + m"
    using le_Suc_ex by blast
  have "(m + 3 + 4) div 4 = Suc ((m + 3) div 4)"
    by (simp only: div_add_self2)
  moreover have "l - i + 3 = m + 3 + 4" "l - (i + 4) + 3 = m + 3"
    by (simp_all add: m)
  ultimately show ?thesis by (simp only:)
next
  case False
  obtain m where m: "l = Suc (i + m)"
    using assms less_iff_Suc_add by auto
  have m3: "m < 3" using False m by simp
  have "(m + 4) div 4 = Suc 0"
    using m3 by (simp add: div_add_self2)
  moreover have "l - i + 3 = m + 4" "l - (i + 4) + 3 = 3"
    using m3 by (simp_all add: m)
  ultimately show ?thesis by (simp only:)
qed

text \<open>
  The transfers of an upload that runs to its end from offset \<open>i\<close> on: one 32-bit write per
  word, at the offsets \<open>i\<close>, \<open>i + 4\<close>, ... below the size.
\<close>

lemma fw_upload_trace:
  "fw_upload b data i w = (None, w') \<Longrightarrow>
   trace w' = trace w @
     concat (map (\<lambda>k. write32_xfers (MXL371X_FW_BASE_ADDR + of_nat (i + 4 * k)) (fw_word data (i + 4 * k) 0 0))
                 [0..<(length data - i + 3) div 4])"
proof (induction b data i w arbitrary: w' rule: fw_upload.induct)
  case (1 b data i w)
  show ?case
  proof (cases "i < length data")
    case True
    obtain ret w1 where wr:
      "mxl371x_write_mem32 b (MXL371X_FW_BASE_ADDR + of_nat i) (fw_word data i 0 0) w = (ret, w1)"
      by (cases "mxl371x_write_mem32 b (MXL371X_FW_BASE_ADDR + of_nat i) (fw_word data i 0 0) w") auto
    have nn: "\<not> ret < 0" and rest: "fw_upload b data (i + 4) w1 = (None, w')"
      using "1.prems" True wr
      by (auto simp add: fw_upload.simps [of b data i] Let_def split: if_splits)
    have t1: "trace w1 = trace w @ write32_xfers (MXL371X_FW_BASE_ADDR + of_nat i) (fw_word data i 0 0)"
      using write_mem32_ok_trace [OF wr] nn by simp
    have t2: "trace w' = trace w1 @
      concat (map (\<lambda>k. write32_xfers (MXL371X_FW_BASE_ADDR + of_nat (i + 4 + 4 * k)) (fw_word data (i + 4 + 4 * k) 0 0))
                 [0..<(length data - (i + 4) + 3) div 4])"
      using "1.IH" [OF True refl wr [symmetric] nn rest] .
    have n: "(length data - i + 3) div 4 = Suc ((length data - (i + 4) + 3) div 4)"
      using True by (rule ceil4_step)
    have sh: "i + 4 * Suc k = i + 4 + 4 * k" for k by simp
    show ?thesis
      unfolding n t2 t1 map_upt_shift sh
      by simp
  next
    case False
    then show ?thesis
      using "1.prems" by (simp add: fw_upload.simps [of b data i])
  qed
qed


lemma ceil4_index: "k < (l + 3) div 4 \<Longrightarrow> 4 * k < (l::nat)"
proof -
  assume "k < (l + 3) div 4"
  then have "Suc k \<le> (l + 3) div 4" by simp
  then have "Suc k * 4 \<le> l + 3"
    by (simp only: less_eq_div_iff_mult_less_eq [of 4 "Suc k" "l + 3"] zero_less_numeral)
  then show ?thesis by simp
qed

lemma fw_words_nth:
  "k < (length data + 3) div 4 \<Longrightarrow> fw_words data ! k = le32 (take 4 (drop (4 * k) data))"
  by (simp add: fw_words_def)



lemma fw_upload_xfers:
  assumes "fw_upload b data 0 w = (None, w')"
  shows "trace w' = trace w @ upload_xfers data"
proof -
  have "map (\<lambda>k. write32_xfers (MXL371X_FW_BASE_ADDR + of_nat (0 + 4 * k)) (fw_word data (0 + 4 * k) 0 0))
            [0..<(length data - 0 + 3) div 4]
      = map (\<lambda>k. write32_xfers (MXL371X_FW_BASE_ADDR + of_nat (4 * k)) (fw_words data ! k))
            [0..<(length data + 3) div 4]"
  proof (rule map_cong)
    show "[0..<(length data - 0 + 3) div 4] = [0..<(length data + 3) div 4]" by simp
  next
    fix k
    assume "k \<in> set [0..<(length data + 3) div 4]"
    then have k: "k < (length data + 3) div 4" by simp
    then have "4 * k \<le> length data" using ceil4_index [of k "length data"] by simp
    then have "fw_word data (4 * k) 0 0 = fw_words data ! k"
      using fw_word_at [of "4 * k" data] fw_words_nth [OF k] by simp
    then show "write32_xfers (MXL371X_FW_BASE_ADDR + of_nat (0 + 4 * k)) (fw_word data (0 + 4 * k) 0 0)
        = write32_xfers (MXL371X_FW_BASE_ADDR + of_nat (4 * k)) (fw_words data ! k)"
      by simp
  qed
  then show ?thesis
    using fw_upload_trace [OF assms] by (simp only: upload_xfers_def)
qed



section \<open>Firmware loader: a load from cold\<close>

text \<open>
  The path of \<open>mxl371x_load_firmware\<close> on which \<open>fw_loaded\<close> is clear, the status check
  finds no firmware running, the storage gives an image of valid size, the reset is
  written and the upload runs to its end: what follows is the release and, when that
  is written, the 500 ms sleep and the ready poll.
\<close>

lemma load_firmware_cold:
  assumes "\<not> fw_loaded priv"
    and "mxl371x_check_firmware_running b w = (0, w1)"
    and "request_firmware (fw_name priv) = (0, data)"
    and "0 < length data" and "length data \<le> MXL371X_MAX_FW_SIZE"
    and "mxl371x_write_mem32 b SRE_CPU_SRC_SEL_CSR 0x8 w1 = (r2, w2)" and "0 \<le> r2"
    and "fw_upload b data 0 (msleep 100 w2) = (None, w3)"
  shows "mxl371x_load_firmware b request_firmware priv w =
           (case mxl371x_write_mem32 b SRE_CPU_SRC_SEL_CSR 0x0 w3 of
              (ret, w4) \<Rightarrow> if ret < 0 then (ret, priv, w4) else fw_poll b 0 0 priv (msleep 500 w4))"
    and "trace w3 = trace w1 @ write32_xfers SRE_CPU_SRC_SEL_CSR 0x8 @ Msleep 100 # upload_xfers data"
proof -
  show "mxl371x_load_firmware b request_firmware priv w =
           (case mxl371x_write_mem32 b SRE_CPU_SRC_SEL_CSR 0x0 w3 of
              (ret, w4) \<Rightarrow> if ret < 0 then (ret, priv, w4) else fw_poll b 0 0 priv (msleep 500 w4))"
    using assms by (simp add: mxl371x_load_firmware_def)
  have "trace w2 = trace w1 @ write32_xfers SRE_CPU_SRC_SEL_CSR 0x8"
    using write_mem32_ok_trace [OF assms(6) assms(7)] .
  moreover have "trace w3 = trace (msleep 100 w2) @ upload_xfers data"
    using fw_upload_xfers [OF assms(8)] .
  ultimately show "trace w3 = trace w1 @ write32_xfers SRE_CPU_SRC_SEL_CSR 0x8 @ Msleep 100 # upload_xfers data"
    by (simp add: msleep_def)
qed

text \<open>
  Before that path is taken: an image of size 0 or of more than 4 MiB is refused with
  \<open>-EINVAL\<close> before anything is written. And on a bus where no write fails the upload
  does run to its end.
\<close>

lemma load_firmware_size_check:
  assumes "\<not> fw_loaded priv"
    and "mxl371x_check_firmware_running b w = (0, w1)"
    and "request_firmware (fw_name priv) = (0, data)"
    and "length data = 0 \<or> MXL371X_MAX_FW_SIZE < length data"
  shows "mxl371x_load_firmware b request_firmware priv w = (- EINVAL, priv, w1)"
  using assms by (auto simp add: mxl371x_load_firmware_def)

lemma write_mem32_no_failure:
  assumes "\<forall>r v d. 0 \<le> fst (bus_write b r v d)"
  shows "0 \<le> fst (mxl371x_write_mem32 b addr val w)"
proof -
  have pw: "\<not> x < 0" if "phy_write b r v u = (x, u')" for r v u x u'
    using assms [rule_format, of r v "dev u"] that
    by (auto simp add: phy_write_def split: prod.splits)
  have pf: "0 \<le> fst (phy_write b r v u)" for r v u
    using pw [of r v u "fst (phy_write b r v u)" "snd (phy_write b r v u)"] by simp
  show ?thesis
    by (auto simp add: mxl371x_write_mem32_def pf split: prod.splits dest: pw)
qed

lemma fw_upload_completes:
  assumes "\<forall>r v d. 0 \<le> fst (bus_write b r v d)"
  shows "fst (fw_upload b data i w) = None"
  using assms
proof (induction b data i w rule: fw_upload.induct)
  case (1 b data i w)
  show ?case
  proof (cases "i < length data")
    case True
    obtain ret w1 where wr:
      "mxl371x_write_mem32 b (MXL371X_FW_BASE_ADDR + of_nat i) (fw_word data i 0 0) w = (ret, w1)"
      by (cases "mxl371x_write_mem32 b (MXL371X_FW_BASE_ADDR + of_nat i) (fw_word data i 0 0) w") auto
    have nn: "\<not> ret < 0"
      using write_mem32_no_failure [OF "1.prems", of "MXL371X_FW_BASE_ADDR + of_nat i"
          "fw_word data i 0 0" w] wr by simp
    show ?thesis
      using "1.IH" [OF True refl wr [symmetric] nn "1.prems"] True wr nn
      by (simp add: fw_upload.simps [of b data i])
  next
    case False
    then show ?thesis
      by (simp add: fw_upload.simps [of b data i])
  qed
qed




text \<open>The six-byte image on a scripted bus whose first twenty transfers answer 0.\<close>

lemma upt2: "[0..<2] = [0, Suc 0]"
  by (simp add: upt_rec)

lemma upload_xfers_image6:
  "upload_xfers image6 = write32_xfers 0 0x44332211 @ write32_xfers 4 0x00006655"
proof -
  have n: "(length image6 + 3) div 4 = 2" by (simp add: image6_def)
  then have w: "fw_words image6 = [0x44332211, 0x00006655]"
    by (simp add: fw_words_def upt2) (simp add: image6_def le32_def)
  show ?thesis
    using n by (simp add: upload_xfers_def upt2 w MXL371X_FW_BASE_ADDR_def)
qed

lemma script_cold6:
  assumes "\<forall>n<20. reply n = 0"
  shows "mxl371x_check_firmware_running (script_bus reply) (start 0)
           = (0, \<lparr>dev = 4, trace = poll_xfers\<rparr>)"
    and "mxl371x_write_mem32 (script_bus reply) SRE_CPU_SRC_SEL_CSR 0x8 \<lparr>dev = 4, trace = poll_xfers\<rparr>
           = (0, \<lparr>dev = 8, trace = poll_xfers @ write32_xfers SRE_CPU_SRC_SEL_CSR 0x8\<rparr>)"
    and "fw_upload (script_bus reply) image6 0
             (msleep 100 \<lparr>dev = 8, trace = poll_xfers @ write32_xfers SRE_CPU_SRC_SEL_CSR 0x8\<rparr>)
           = (None, \<lparr>dev = 16, trace = poll_xfers @ write32_xfers SRE_CPU_SRC_SEL_CSR 0x8 @
                        [Msleep 100] @ upload_xfers image6\<rparr>)"
    and "mxl371x_write_mem32 (script_bus reply) SRE_CPU_SRC_SEL_CSR 0x0
             \<lparr>dev = 16, trace = poll_xfers @ write32_xfers SRE_CPU_SRC_SEL_CSR 0x8 @
                        [Msleep 100] @ upload_xfers image6\<rparr>
           = (0, \<lparr>dev = 20, trace = poll_xfers @ write32_xfers SRE_CPU_SRC_SEL_CSR 0x8 @
                        [Msleep 100] @ upload_xfers image6 @ write32_xfers SRE_CPU_SRC_SEL_CSR 0x0\<rparr>)"
proof -
  have r: "reply n = 0" if "n < 20" for n
    using assms that by simp
  show "mxl371x_check_firmware_running (script_bus reply) (start 0)
           = (0, \<lparr>dev = 4, trace = poll_xfers\<rparr>)"
    by (simp add: mxl371x_check_firmware_running_def eval_bus r poll_xfers_def read32_xfers_def)
  show "mxl371x_write_mem32 (script_bus reply) SRE_CPU_SRC_SEL_CSR 0x8 \<lparr>dev = 4, trace = poll_xfers\<rparr>
           = (0, \<lparr>dev = 8, trace = poll_xfers @ write32_xfers SRE_CPU_SRC_SEL_CSR 0x8\<rparr>)"
    by (simp add: eval_bus r write32_xfers_def)
  show "fw_upload (script_bus reply) image6 0
             (msleep 100 \<lparr>dev = 8, trace = poll_xfers @ write32_xfers SRE_CPU_SRC_SEL_CSR 0x8\<rparr>)
           = (None, \<lparr>dev = 16, trace = poll_xfers @ write32_xfers SRE_CPU_SRC_SEL_CSR 0x8 @
                        [Msleep 100] @ upload_xfers image6\<rparr>)"
    unfolding upload_xfers_image6
    by (simp add: fw_upload.simps [of _ _ 0] fw_upload.simps [of _ _ 4] fw_upload.simps [of _ _ 8]
        fw_word.simps image6_def eval_bus r write32_xfers_def MXL371X_FW_BASE_ADDR_def)
  show "mxl371x_write_mem32 (script_bus reply) SRE_CPU_SRC_SEL_CSR 0x0
             \<lparr>dev = 16, trace = poll_xfers @ write32_xfers SRE_CPU_SRC_SEL_CSR 0x8 @
                        [Msleep 100] @ upload_xfers image6\<rparr>
           = (0, \<lparr>dev = 20, trace = poll_xfers @ write32_xfers SRE_CPU_SRC_SEL_CSR 0x8 @
                        [Msleep 100] @ upload_xfers image6 @ write32_xfers SRE_CPU_SRC_SEL_CSR 0x0\<rparr>)"
    by (simp add: eval_bus r write32_xfers_def)
qed



text \<open>
  C2. The ready poll of \<open>mxl371x_load_firmware\<close>, for any bus, in a load from cold that
  has written the release: \<open>wp\<close> is the bus after the 500 ms sleep that follows it. If the
  polls before poll \<open>k < 50\<close> were quiet and poll \<open>k\<close> shows the running bit, the loader
  returns 0 with \<open>fw_loaded\<close> set, after exactly \<open>k + 1\<close> reads with a 100 ms sleep after
  each of the first \<open>k\<close>. If instead poll \<open>k\<close> shows the error bit with the running bit
  clear, it returns \<open>-EIO\<close> at once. If all of 50 polls are quiet it returns \<open>-ETIMEDOUT\<close>
  after exactly 50 reads, each followed by a 100 ms sleep. Whatever the bus does, there
  are at most 50 polls.
\<close>

theorem load_firmware_ready_poll:
  assumes "\<not> fw_loaded priv"
    and "mxl371x_check_firmware_running b w = (0, w1)"
    and "request_firmware (fw_name priv) = (0, data)"
    and "0 < length data" and "length data \<le> MXL371X_MAX_FW_SIZE"
    and "mxl371x_write_mem32 b SRE_CPU_SRC_SEL_CSR 0x8 w1 = (r2, w2)" and "0 \<le> r2"
    and "fw_upload b data 0 (msleep 100 w2) = (None, w3)"
    and "mxl371x_write_mem32 b SRE_CPU_SRC_SEL_CSR 0x0 w3 = (r4, w4)" and "0 \<le> r4"
    and "wp = msleep 500 w4"
  shows
  "trace wp = trace w1 @ write32_xfers SRE_CPU_SRC_SEL_CSR 0x8 @ Msleep 100 # upload_xfers data @
              write32_xfers SRE_CPU_SRC_SEL_CSR 0x0 @ [Msleep 500] \<and>
   (k < 50 \<and> (\<forall>j<k. poll_quiet (poll_obs b j wp)) \<and>
      fst (poll_obs b k wp) = 0 \<and> fst (snd (poll_obs b k wp)) AND MXL371X_FW_RUNNING \<noteq> 0 \<longrightarrow>
      mxl371x_load_firmware b request_firmware priv w
        = (0, priv\<lparr>fw_loaded := True\<rparr>, snd (snd (poll_obs b k wp))) \<and>
      trace (snd (snd (poll_obs b k wp)))
        = trace wp @ concat (replicate k (poll_xfers @ [Msleep 100])) @ poll_xfers) \<and>
   (k < 50 \<and> (\<forall>j<k. poll_quiet (poll_obs b j wp)) \<and>
      fst (poll_obs b k wp) = 0 \<and> fst (snd (poll_obs b k wp)) AND MXL371X_FW_RUNNING = 0 \<and>
      fst (snd (poll_obs b k wp)) AND MXL371X_FW_ERROR \<noteq> 0 \<longrightarrow>
      mxl371x_load_firmware b request_firmware priv w = (- EIO, priv, snd (snd (poll_obs b k wp))) \<and>
      trace (snd (snd (poll_obs b k wp)))
        = trace wp @ concat (replicate k (poll_xfers @ [Msleep 100])) @ poll_xfers) \<and>
   ((\<forall>j<50. poll_quiet (poll_obs b j wp)) \<longrightarrow>
      mxl371x_load_firmware b request_firmware priv w = (- ETIMEDOUT, priv, poll_world b 50 wp) \<and>
      trace (poll_world b 50 wp) = trace wp @ concat (replicate 50 (poll_xfers @ [Msleep 100]))) \<and>
   polls (trace (snd (snd (mxl371x_load_firmware b request_firmware priv w)))) \<le> polls (trace wp) + 50"
proof -
  have lf: "mxl371x_load_firmware b request_firmware priv w = fw_poll b 0 0 priv wp"
    using load_firmware_cold(1) [where request_firmware = request_firmware, OF assms(1-8)] assms(9-11) by simp
  have t0: "trace wp = trace w1 @ write32_xfers SRE_CPU_SRC_SEL_CSR 0x8 @ Msleep 100 # upload_xfers data @
              write32_xfers SRE_CPU_SRC_SEL_CSR 0x0 @ [Msleep 500]"
    using load_firmware_cold(2) [where request_firmware = request_firmware, OF assms(1-8)] write_mem32_ok_trace [OF assms(9) assms(10)] assms(11)
    by (simp add: msleep_def)
  have run: "fw_poll b 0 0 priv wp = (0, priv\<lparr>fw_loaded := True\<rparr>, snd (snd (poll_obs b k wp)))"
    if "k < 50" "\<forall>j<k. poll_quiet (poll_obs b j wp)" "fst (poll_obs b k wp) = 0"
      "fst (snd (poll_obs b k wp)) AND MXL371X_FW_RUNNING \<noteq> 0"
  proof -
    have "fw_poll b 0 0 priv wp = fw_poll b k 0 priv (poll_world b k wp)"
      using fw_poll_after_quiet [of 0 k b wp priv] that by simp
    then show ?thesis
      using that by (simp add: fw_poll.simps [of b k 0] poll_obs_def case_prod_unfold)
  qed
  have err: "fw_poll b 0 0 priv wp = (- EIO, priv, snd (snd (poll_obs b k wp)))"
    if "k < 50" "\<forall>j<k. poll_quiet (poll_obs b j wp)" "fst (poll_obs b k wp) = 0"
      "fst (snd (poll_obs b k wp)) AND MXL371X_FW_RUNNING = 0"
      "fst (snd (poll_obs b k wp)) AND MXL371X_FW_ERROR \<noteq> 0"
  proof -
    have "fw_poll b 0 0 priv wp = fw_poll b k 0 priv (poll_world b k wp)"
      using fw_poll_after_quiet [of 0 k b wp priv] that by simp
    then show ?thesis
      using that by (simp add: fw_poll.simps [of b k 0] poll_obs_def case_prod_unfold)
  qed
  have tr: "trace (snd (snd (poll_obs b k wp)))
        = trace wp @ concat (replicate k (poll_xfers @ [Msleep 100])) @ poll_xfers"
    if "\<forall>j<k. poll_quiet (poll_obs b j wp)" "fst (poll_obs b k wp) = 0"
  proof -
    obtain r v v1 where a: "poll_obs b k wp = (r, v, v1)"
      by (cases "poll_obs b k wp") auto
    then have "trace v1 = trace (poll_world b k wp) @ poll_xfers"
      using that read_mem32_ok_trace [of b MXL371X_FW_STATUS_REG 0 "poll_world b k wp" v v1]
      by (simp add: poll_obs_def poll_xfers_def)
    then show ?thesis
      using a poll_world_trace [of k b wp] that by simp
  qed
  have tmo: "fw_poll b 0 0 priv wp = (- ETIMEDOUT, priv, poll_world b 50 wp)"
    if "\<forall>j<50. poll_quiet (poll_obs b j wp)"
  proof -
    have "fw_poll b 0 0 priv wp = fw_poll b 50 0 priv (poll_world b 50 wp)"
      using fw_poll_after_quiet [of 0 50 b wp priv] that by simp
    then show ?thesis
      by (simp add: fw_poll.simps [of b 50 0])
  qed
  show ?thesis
    unfolding lf
    using t0 run err tr tmo poll_world_trace [of 50 b wp] fw_poll_polls [of b 0 0 priv wp]
    by simp
qed

text \<open>
  Loads of the six-byte image. A status register that reports running on the third poll:
  success after exactly three reads. One that reports an error on the first poll: \<open>-EIO\<close>
  after one read. One that never reports anything: \<open>-ETIMEDOUT\<close> after 50 reads.
\<close>

theorem load_firmware_ready_poll_witness:
  "mxl371x_load_firmware (script_bus (running_at 7)) (firmware image6) mxl371x_probe (start 0)
     = (0, mxl371x_probe\<lparr>fw_loaded := True\<rparr>,
        \<lparr>dev = 32, trace = cold_xfers image6 @ poll_xfers @ [Msleep 100] @ poll_xfers @ [Msleep 100] @ poll_xfers\<rparr>) \<and>
   mxl371x_load_firmware (script_bus (error_at 5)) (firmware image6) mxl371x_probe (start 0)
     = (- EIO, mxl371x_probe, \<lparr>dev = 24, trace = cold_xfers image6 @ poll_xfers\<rparr>) \<and>
   fst (mxl371x_load_firmware (script_bus silent) (firmware image6) mxl371x_probe (start 0)) = - ETIMEDOUT \<and>
   trace (snd (snd (mxl371x_load_firmware (script_bus silent) (firmware image6) mxl371x_probe (start 0))))
     = cold_xfers image6 @ concat (replicate 50 (poll_xfers @ [Msleep 100]))"
proof -
  let ?B = "script_bus (running_at 7)"
  let ?E = "script_bus (error_at 5)"
  let ?S = "script_bus silent"
  let ?w0 = "\<lparr>dev = 20::nat, trace = cold_xfers image6\<rparr>"
  let ?w3 = "\<lparr>dev = 16::nat, trace = poll_xfers @ write32_xfers SRE_CPU_SRC_SEL_CSR 0x8 @
                        [Msleep 100] @ upload_xfers image6\<rparr>"
  let ?w4 = "\<lparr>dev = 20::nat, trace = poll_xfers @ write32_xfers SRE_CPU_SRC_SEL_CSR 0x8 @
                        [Msleep 100] @ upload_xfers image6 @ write32_xfers SRE_CPU_SRC_SEL_CSR 0x0\<rparr>"
  have w0: "?w0 = msleep 500 ?w4"
    by (simp add: msleep_def cold_xfers_def)
  have nl: "\<not> fw_loaded mxl371x_probe" by (simp add: mxl371x_probe_def)
  have fw: "firmware image6 (fw_name mxl371x_probe) = (0, image6)" by (simp add: firmware_def)
  have sz: "0 < length image6" "length image6 \<le> MXL371X_MAX_FW_SIZE"
    by (simp_all add: image6_def MXL371X_MAX_FW_SIZE_def)
  have zB: "\<forall>n<20. running_at 7 n = 0" by (simp add: running_at_def)
  have zE: "\<forall>n<20. error_at 5 n = 0" by (simp add: error_at_def)
  have zS: "\<forall>n<20. silent n = 0" by (simp add: silent_def)
  note thB = load_firmware_ready_poll [where request_firmware = "firmware image6" and wp = ?w0,
      OF nl script_cold6(1) [OF zB] fw sz script_cold6(2) [OF zB] order_refl script_cold6(3) [OF zB]
         script_cold6(4) [OF zB] order_refl w0]
  note thE = load_firmware_ready_poll [where request_firmware = "firmware image6" and wp = ?w0,
      OF nl script_cold6(1) [OF zE] fw sz script_cold6(2) [OF zE] order_refl script_cold6(3) [OF zE]
         script_cold6(4) [OF zE] order_refl w0]
  note thS = load_firmware_ready_poll [where request_firmware = "firmware image6" and wp = ?w0,
      OF nl script_cold6(1) [OF zS] fw sz script_cold6(2) [OF zS] order_refl script_cold6(3) [OF zS]
         script_cold6(4) [OF zS] order_refl w0]
  have pw1: "poll_world ?B (Suc 0) ?w0 = \<lparr>dev = 24, trace = cold_xfers image6 @ poll_xfers @ [Msleep 100]\<rparr>"
    by (simp add: eval_bus running_at_def poll_xfers_def read32_xfers_def)
  have pw2: "poll_world ?B (Suc (Suc 0)) ?w0
      = \<lparr>dev = 28, trace = cold_xfers image6 @ poll_xfers @ [Msleep 100] @ poll_xfers @ [Msleep 100]\<rparr>"
    by (simp add: eval_bus running_at_def poll_xfers_def read32_xfers_def)
  have o0: "poll_obs ?B 0 ?w0 = (0, 0, \<lparr>dev = 24, trace = cold_xfers image6 @ poll_xfers\<rparr>)"
    by (simp add: poll_obs_def eval_bus running_at_def poll_xfers_def read32_xfers_def)
  have o1: "poll_obs ?B (Suc 0) ?w0
      = (0, 0, \<lparr>dev = 28, trace = cold_xfers image6 @ poll_xfers @ [Msleep 100] @ poll_xfers\<rparr>)"
    unfolding poll_obs_def pw1
    by (simp add: eval_bus running_at_def poll_xfers_def read32_xfers_def)
  have o2: "poll_obs ?B 2 ?w0
      = (0, 2, \<lparr>dev = 32, trace = cold_xfers image6 @ poll_xfers @ [Msleep 100] @ poll_xfers @ [Msleep 100] @ poll_xfers\<rparr>)"
    unfolding poll_obs_def numeral_2_eq_2 pw2
    by (simp add: eval_bus running_at_def poll_xfers_def read32_xfers_def)
  have q1: "\<forall>j<2. poll_quiet (poll_obs ?B j ?w0)"
  proof (intro allI impI)
    fix j :: nat
    assume "j < 2"
    then consider "j = 0" | "j = Suc 0" by linarith
    then show "poll_quiet (poll_obs ?B j ?w0)"
      by cases (simp_all add: o0 o1 poll_quiet_def)
  qed
  have e0: "poll_obs ?E 0 ?w0 = (0, 4, \<lparr>dev = 24, trace = cold_xfers image6 @ poll_xfers\<rparr>)"
    by (simp add: poll_obs_def eval_bus error_at_def poll_xfers_def read32_xfers_def)
  have q4: "\<forall>j<50. poll_quiet (poll_obs ?S j ?w0)"
    by (simp add: silent_quiet)
  have A: "mxl371x_load_firmware ?B (firmware image6) mxl371x_probe (start 0)
      = (0, mxl371x_probe\<lparr>fw_loaded := True\<rparr>,
         \<lparr>dev = 32, trace = cold_xfers image6 @ poll_xfers @ [Msleep 100] @ poll_xfers @ [Msleep 100] @ poll_xfers\<rparr>)"
    using thB [where k = 2] q1
    by (simp add: o2 MXL371X_FW_RUNNING_def)
  have B: "mxl371x_load_firmware ?E (firmware image6) mxl371x_probe (start 0)
      = (- EIO, mxl371x_probe, \<lparr>dev = 24, trace = cold_xfers image6 @ poll_xfers\<rparr>)"
    using thE [where k = 0]
    by (simp add: e0 MXL371X_FW_RUNNING_def MXL371X_FW_ERROR_def)
  have C: "mxl371x_load_firmware ?S (firmware image6) mxl371x_probe (start 0)
      = (- ETIMEDOUT, mxl371x_probe, poll_world ?S 50 ?w0) \<and>
      trace (poll_world ?S 50 ?w0)
      = trace ?w0 @ concat (replicate 50 (poll_xfers @ [Msleep 100]))"
    using thS [where k = 0] q4
    by blast
  show ?thesis
    using A B C by simp
qed

section \<open>Status and statistics readers\<close>

lemma read_status_field_eq:
  "mxl371x_read_mem32 b a val w = (r, v, w1) \<Longrightarrow>
   read_status_field b a store (ret, val, priv, w)
     = (if r = 0 then ret else - EIO, v, if r = 0 then store v priv else priv, w1)"
  by (simp add: read_status_field_def)

lemma read_moca_status_independent:
  assumes "read32_all b status_regs 0 w = (rs, w')"
  shows "mxl371x_read_moca_status b priv w =
     (if any_failed rs then - EIO else 0,
      priv\<lparr>link_status := (if fst (rs ! 0) = 0 then snd (rs ! 0) AND MOCA_LINK_STATUS_MASK else link_status priv),
           phy_rate := (if fst (rs ! 1) = 0 then snd (rs ! 1) AND 0xffff else phy_rate priv),
           moca_version := (if fst (rs ! 2) = 0 then snd (rs ! 2) AND 0xff else moca_version priv),
           node_id := (if fst (rs ! 3) = 0 then snd (rs ! 3) AND 0xff else node_id priv),
           nc_node_id := (if fst (rs ! 4) = 0 then snd (rs ! 4) AND 0xff else nc_node_id priv),
           lof := (if fst (rs ! 5) = 0 then snd (rs ! 5) else lof priv),
           network_state := (if fst (rs ! 6) = 0 then snd (rs ! 6) AND 0xff else network_state priv),
           active_nodes := (if fst (rs ! 7) = 0 then snd (rs ! 7) else active_nodes priv),
           security_enabled := (if fst (rs ! 8) = 0 then snd (rs ! 8) AND MOCA_SECURITY_ENABLED \<noteq> 0 else security_enabled priv)\<rparr>,
      w')"
proof -
  obtain r0 v0 w1 where a0: "mxl371x_read_mem32 b MOCA_LINK_STATUS_REG 0 w = (r0, v0, w1)"
    by (cases "mxl371x_read_mem32 b MOCA_LINK_STATUS_REG 0 w") auto
  obtain r1 v1 w2 where a1: "mxl371x_read_mem32 b MOCA_LINK_PHY_RATE_REG v0 w1 = (r1, v1, w2)"
    by (cases "mxl371x_read_mem32 b MOCA_LINK_PHY_RATE_REG v0 w1") auto
  obtain r2 v2 w3 where a2: "mxl371x_read_mem32 b MOCA_LINK_MOCA_VER_REG v1 w2 = (r2, v2, w3)"
    by (cases "mxl371x_read_mem32 b MOCA_LINK_MOCA_VER_REG v1 w2") auto
  obtain r3 v3 w4 where a3: "mxl371x_read_mem32 b MOCA_LINK_NODE_ID_REG v2 w3 = (r3, v3, w4)"
    by (cases "mxl371x_read_mem32 b MOCA_LINK_NODE_ID_REG v2 w3") auto
  obtain r4 v4 w5 where a4: "mxl371x_read_mem32 b MOCA_LINK_NC_NODE_ID_REG v3 w4 = (r4, v4, w5)"
    by (cases "mxl371x_read_mem32 b MOCA_LINK_NC_NODE_ID_REG v3 w4") auto
  obtain r5 v5 w6 where a5: "mxl371x_read_mem32 b MOCA_LINK_LOF_REG v4 w5 = (r5, v5, w6)"
    by (cases "mxl371x_read_mem32 b MOCA_LINK_LOF_REG v4 w5") auto
  obtain r6 v6 w7 where a6: "mxl371x_read_mem32 b MOCA_LINK_NETWORK_STATE_REG v5 w6 = (r6, v6, w7)"
    by (cases "mxl371x_read_mem32 b MOCA_LINK_NETWORK_STATE_REG v5 w6") auto
  obtain r7 v7 w8 where a7: "mxl371x_read_mem32 b MOCA_LINK_ACTIVE_NODES_REG v6 w7 = (r7, v7, w8)"
    by (cases "mxl371x_read_mem32 b MOCA_LINK_ACTIVE_NODES_REG v6 w7") auto
  obtain r8 v8 w9 where a8: "mxl371x_read_mem32 b MOCA_SECURITY_STATUS_REG v7 w8 = (r8, v8, w9)"
    by (cases "mxl371x_read_mem32 b MOCA_SECURITY_STATUS_REG v7 w8") auto
  have rs: "rs = [(r0, v0), (r1, v1), (r2, v2), (r3, v3), (r4, v4), (r5, v5), (r6, v6), (r7, v7), (r8, v8)]"
    and w': "w' = w9"
    using assms by (simp_all add: status_regs_def a0 a1 a2 a3 a4 a5 a6 a7 a8)
  define e0 where "e0 = (if r0 = 0 then (0::int) else - EIO)"
  have s0: "read_status_field b MOCA_LINK_STATUS_REG (\<lambda>val p. p\<lparr>link_status := val AND MOCA_LINK_STATUS_MASK\<rparr>)
        (0, 0, priv, w)
      = (e0, v0, priv\<lparr>link_status := (if r0 = 0 then v0 AND MOCA_LINK_STATUS_MASK else link_status priv)\<rparr>, w1)"
    by (simp add: read_status_field_eq [OF a0] e0_def cong: if_cong)
  define e1 where "e1 = (if r1 = 0 then e0 else - EIO)"
  have s1: "read_status_field b MOCA_LINK_PHY_RATE_REG (\<lambda>val p. p\<lparr>phy_rate := val AND 0xffff\<rparr>)
        (e0, v0, priv\<lparr>link_status := (if r0 = 0 then v0 AND MOCA_LINK_STATUS_MASK else link_status priv)\<rparr>, w1)
      = (e1, v1, priv\<lparr>link_status := (if r0 = 0 then v0 AND MOCA_LINK_STATUS_MASK else link_status priv), phy_rate := (if r1 = 0 then v1 AND 0xffff else phy_rate priv)\<rparr>, w2)"
    by (simp add: read_status_field_eq [OF a1] e1_def cong: if_cong)
  define e2 where "e2 = (if r2 = 0 then e1 else - EIO)"
  have s2: "read_status_field b MOCA_LINK_MOCA_VER_REG (\<lambda>val p. p\<lparr>moca_version := val AND 0xff\<rparr>)
        (e1, v1, priv\<lparr>link_status := (if r0 = 0 then v0 AND MOCA_LINK_STATUS_MASK else link_status priv), phy_rate := (if r1 = 0 then v1 AND 0xffff else phy_rate priv)\<rparr>, w2)
      = (e2, v2, priv\<lparr>link_status := (if r0 = 0 then v0 AND MOCA_LINK_STATUS_MASK else link_status priv), phy_rate := (if r1 = 0 then v1 AND 0xffff else phy_rate priv), moca_version := (if r2 = 0 then v2 AND 0xff else moca_version priv)\<rparr>, w3)"
    by (simp add: read_status_field_eq [OF a2] e2_def cong: if_cong)
  define e3 where "e3 = (if r3 = 0 then e2 else - EIO)"
  have s3: "read_status_field b MOCA_LINK_NODE_ID_REG (\<lambda>val p. p\<lparr>node_id := val AND 0xff\<rparr>)
        (e2, v2, priv\<lparr>link_status := (if r0 = 0 then v0 AND MOCA_LINK_STATUS_MASK else link_status priv), phy_rate := (if r1 = 0 then v1 AND 0xffff else phy_rate priv), moca_version := (if r2 = 0 then v2 AND 0xff else moca_version priv)\<rparr>, w3)
      = (e3, v3, priv\<lparr>link_status := (if r0 = 0 then v0 AND MOCA_LINK_STATUS_MASK else link_status priv), phy_rate := (if r1 = 0 then v1 AND 0xffff else phy_rate priv), moca_version := (if r2 = 0 then v2 AND 0xff else moca_version priv), node_id := (if r3 = 0 then v3 AND 0xff else node_id priv)\<rparr>, w4)"
    by (simp add: read_status_field_eq [OF a3] e3_def cong: if_cong)
  define e4 where "e4 = (if r4 = 0 then e3 else - EIO)"
  have s4: "read_status_field b MOCA_LINK_NC_NODE_ID_REG (\<lambda>val p. p\<lparr>nc_node_id := val AND 0xff\<rparr>)
        (e3, v3, priv\<lparr>link_status := (if r0 = 0 then v0 AND MOCA_LINK_STATUS_MASK else link_status priv), phy_rate := (if r1 = 0 then v1 AND 0xffff else phy_rate priv), moca_version := (if r2 = 0 then v2 AND 0xff else moca_version priv), node_id := (if r3 = 0 then v3 AND 0xff else node_id priv)\<rparr>, w4)
      = (e4, v4, priv\<lparr>link_status := (if r0 = 0 then v0 AND MOCA_LINK_STATUS_MASK else link_status priv), phy_rate := (if r1 = 0 then v1 AND 0xffff else phy_rate priv), moca_version := (if r2 = 0 then v2 AND 0xff else moca_version priv), node_id := (if r3 = 0 then v3 AND 0xff else node_id priv), nc_node_id := (if r4 = 0 then v4 AND 0xff else nc_node_id priv)\<rparr>, w5)"
    by (simp add: read_status_field_eq [OF a4] e4_def cong: if_cong)
  define e5 where "e5 = (if r5 = 0 then e4 else - EIO)"
  have s5: "read_status_field b MOCA_LINK_LOF_REG (\<lambda>val p. p\<lparr>lof := val\<rparr>)
        (e4, v4, priv\<lparr>link_status := (if r0 = 0 then v0 AND MOCA_LINK_STATUS_MASK else link_status priv), phy_rate := (if r1 = 0 then v1 AND 0xffff else phy_rate priv), moca_version := (if r2 = 0 then v2 AND 0xff else moca_version priv), node_id := (if r3 = 0 then v3 AND 0xff else node_id priv), nc_node_id := (if r4 = 0 then v4 AND 0xff else nc_node_id priv)\<rparr>, w5)
      = (e5, v5, priv\<lparr>link_status := (if r0 = 0 then v0 AND MOCA_LINK_STATUS_MASK else link_status priv), phy_rate := (if r1 = 0 then v1 AND 0xffff else phy_rate priv), moca_version := (if r2 = 0 then v2 AND 0xff else moca_version priv), node_id := (if r3 = 0 then v3 AND 0xff else node_id priv), nc_node_id := (if r4 = 0 then v4 AND 0xff else nc_node_id priv), lof := (if r5 = 0 then v5 else lof priv)\<rparr>, w6)"
    by (simp add: read_status_field_eq [OF a5] e5_def cong: if_cong)
  define e6 where "e6 = (if r6 = 0 then e5 else - EIO)"
  have s6: "read_status_field b MOCA_LINK_NETWORK_STATE_REG (\<lambda>val p. p\<lparr>network_state := val AND 0xff\<rparr>)
        (e5, v5, priv\<lparr>link_status := (if r0 = 0 then v0 AND MOCA_LINK_STATUS_MASK else link_status priv), phy_rate := (if r1 = 0 then v1 AND 0xffff else phy_rate priv), moca_version := (if r2 = 0 then v2 AND 0xff else moca_version priv), node_id := (if r3 = 0 then v3 AND 0xff else node_id priv), nc_node_id := (if r4 = 0 then v4 AND 0xff else nc_node_id priv), lof := (if r5 = 0 then v5 else lof priv)\<rparr>, w6)
      = (e6, v6, priv\<lparr>link_status := (if r0 = 0 then v0 AND MOCA_LINK_STATUS_MASK else link_status priv), phy_rate := (if r1 = 0 then v1 AND 0xffff else phy_rate priv), moca_version := (if r2 = 0 then v2 AND 0xff else moca_version priv), node_id := (if r3 = 0 then v3 AND 0xff else node_id priv), nc_node_id := (if r4 = 0 then v4 AND 0xff else nc_node_id priv), lof := (if r5 = 0 then v5 else lof priv), network_state := (if r6 = 0 then v6 AND 0xff else network_state priv)\<rparr>, w7)"
    by (simp add: read_status_field_eq [OF a6] e6_def cong: if_cong)
  define e7 where "e7 = (if r7 = 0 then e6 else - EIO)"
  have s7: "read_status_field b MOCA_LINK_ACTIVE_NODES_REG (\<lambda>val p. p\<lparr>active_nodes := val\<rparr>)
        (e6, v6, priv\<lparr>link_status := (if r0 = 0 then v0 AND MOCA_LINK_STATUS_MASK else link_status priv), phy_rate := (if r1 = 0 then v1 AND 0xffff else phy_rate priv), moca_version := (if r2 = 0 then v2 AND 0xff else moca_version priv), node_id := (if r3 = 0 then v3 AND 0xff else node_id priv), nc_node_id := (if r4 = 0 then v4 AND 0xff else nc_node_id priv), lof := (if r5 = 0 then v5 else lof priv), network_state := (if r6 = 0 then v6 AND 0xff else network_state priv)\<rparr>, w7)
      = (e7, v7, priv\<lparr>link_status := (if r0 = 0 then v0 AND MOCA_LINK_STATUS_MASK else link_status priv), phy_rate := (if r1 = 0 then v1 AND 0xffff else phy_rate priv), moca_version := (if r2 = 0 then v2 AND 0xff else moca_version priv), node_id := (if r3 = 0 then v3 AND 0xff else node_id priv), nc_node_id := (if r4 = 0 then v4 AND 0xff else nc_node_id priv), lof := (if r5 = 0 then v5 else lof priv), network_state := (if r6 = 0 then v6 AND 0xff else network_state priv), active_nodes := (if r7 = 0 then v7 else active_nodes priv)\<rparr>, w8)"
    by (simp add: read_status_field_eq [OF a7] e7_def cong: if_cong)
  define e8 where "e8 = (if r8 = 0 then e7 else - EIO)"
  have s8: "read_status_field b MOCA_SECURITY_STATUS_REG (\<lambda>val p. p\<lparr>security_enabled := (val AND MOCA_SECURITY_ENABLED \<noteq> 0)\<rparr>)
        (e7, v7, priv\<lparr>link_status := (if r0 = 0 then v0 AND MOCA_LINK_STATUS_MASK else link_status priv), phy_rate := (if r1 = 0 then v1 AND 0xffff else phy_rate priv), moca_version := (if r2 = 0 then v2 AND 0xff else moca_version priv), node_id := (if r3 = 0 then v3 AND 0xff else node_id priv), nc_node_id := (if r4 = 0 then v4 AND 0xff else nc_node_id priv), lof := (if r5 = 0 then v5 else lof priv), network_state := (if r6 = 0 then v6 AND 0xff else network_state priv), active_nodes := (if r7 = 0 then v7 else active_nodes priv)\<rparr>, w8)
      = (e8, v8, priv\<lparr>link_status := (if r0 = 0 then v0 AND MOCA_LINK_STATUS_MASK else link_status priv), phy_rate := (if r1 = 0 then v1 AND 0xffff else phy_rate priv), moca_version := (if r2 = 0 then v2 AND 0xff else moca_version priv), node_id := (if r3 = 0 then v3 AND 0xff else node_id priv), nc_node_id := (if r4 = 0 then v4 AND 0xff else nc_node_id priv), lof := (if r5 = 0 then v5 else lof priv), network_state := (if r6 = 0 then v6 AND 0xff else network_state priv), active_nodes := (if r7 = 0 then v7 else active_nodes priv), security_enabled := (if r8 = 0 then v8 AND MOCA_SECURITY_ENABLED \<noteq> 0 else security_enabled priv)\<rparr>, w9)"
    by (simp add: read_status_field_eq [OF a8] e8_def cong: if_cong)
  have e: "e8 = (if any_failed rs then - EIO else 0)"
    by (simp add: rs any_failed_def e0_def e1_def e2_def e3_def e4_def e5_def e6_def e7_def e8_def)
  have nth: "rs ! 0 = (r0, v0)" "rs ! 1 = (r1, v1)" "rs ! 2 = (r2, v2)" "rs ! 3 = (r3, v3)"
    "rs ! 4 = (r4, v4)" "rs ! 5 = (r5, v5)" "rs ! 6 = (r6, v6)" "rs ! 7 = (r7, v7)" "rs ! 8 = (r8, v8)"
    by (simp_all add: rs)
  have "mxl371x_read_moca_status b priv w = (e8, priv\<lparr>link_status := (if r0 = 0 then v0 AND MOCA_LINK_STATUS_MASK else link_status priv), phy_rate := (if r1 = 0 then v1 AND 0xffff else phy_rate priv), moca_version := (if r2 = 0 then v2 AND 0xff else moca_version priv), node_id := (if r3 = 0 then v3 AND 0xff else node_id priv), nc_node_id := (if r4 = 0 then v4 AND 0xff else nc_node_id priv), lof := (if r5 = 0 then v5 else lof priv), network_state := (if r6 = 0 then v6 AND 0xff else network_state priv), active_nodes := (if r7 = 0 then v7 else active_nodes priv), security_enabled := (if r8 = 0 then v8 AND MOCA_SECURITY_ENABLED \<noteq> 0 else security_enabled priv)\<rparr>, w9)"
    by (simp only: mxl371x_read_moca_status_def Let_def s0 s1 s2 s3 s4 s5 s6 s7 s8 prod.case)
  then show ?thesis
    by (simp only: e w' nth fst_conv snd_conv)
qed


lemma read_mem64_le0D: "mxl371x_read_mem64 b a old w = (r, v, w1) \<Longrightarrow> r \<le> 0"
  using read_mem64_ret_le0 [of b a old w] by simp

lemma read_mem64_keepD: "mxl371x_read_mem64 b a old w = (r, v, w1) \<Longrightarrow> r \<noteq> 0 \<Longrightarrow> v = old"
  using read_mem64_err_keeps [of b a old w] by simp

lemma update_stats_independent:
  assumes "read64_all b (stats_regs (stats priv)) w = (rs, w')"
  shows "snd (mxl371x_update_stats b priv w) =
           (priv\<lparr>stats := \<lparr>tx_packets = snd (rs ! 0), tx_bytes = snd (rs ! 1), tx_dropped = snd (rs ! 2), tx_broadcast = snd (rs ! 3), tx_multicast = snd (rs ! 4), rx_packets = snd (rs ! 5), rx_bytes = snd (rs ! 6), rx_dropped = snd (rs ! 7), rx_errors = snd (rs ! 8)\<rparr>\<rparr>, w')"
    and "fst (mxl371x_update_stats b priv w) < 0 \<longleftrightarrow> any_failed rs"
    and "length rs = 9"
    and "list_all2 (\<lambda>res reg. fst res \<noteq> 0 \<longrightarrow> snd res = snd reg) rs (stats_regs (stats priv))"
proof -
  obtain r0 v0 w1 where a0: "mxl371x_read_mem64 b MOCA_STATS_TX_TOTAL_PKTS (tx_packets (stats priv)) w = (r0, v0, w1)"
    by (cases "mxl371x_read_mem64 b MOCA_STATS_TX_TOTAL_PKTS (tx_packets (stats priv)) w") auto
  obtain r1 v1 w2 where a1: "mxl371x_read_mem64 b MOCA_STATS_TX_TOTAL_BYTES (tx_bytes (stats priv)) w1 = (r1, v1, w2)"
    by (cases "mxl371x_read_mem64 b MOCA_STATS_TX_TOTAL_BYTES (tx_bytes (stats priv)) w1") auto
  obtain r2 v2 w3 where a2: "mxl371x_read_mem64 b MOCA_STATS_TX_DROPPED_PKTS (tx_dropped (stats priv)) w2 = (r2, v2, w3)"
    by (cases "mxl371x_read_mem64 b MOCA_STATS_TX_DROPPED_PKTS (tx_dropped (stats priv)) w2") auto
  obtain r3 v3 w4 where a3: "mxl371x_read_mem64 b MOCA_STATS_TX_BCAST_PKTS (tx_broadcast (stats priv)) w3 = (r3, v3, w4)"
    by (cases "mxl371x_read_mem64 b MOCA_STATS_TX_BCAST_PKTS (tx_broadcast (stats priv)) w3") auto
  obtain r4 v4 w5 where a4: "mxl371x_read_mem64 b MOCA_STATS_TX_MCAST_PKTS (tx_multicast (stats priv)) w4 = (r4, v4, w5)"
    by (cases "mxl371x_read_mem64 b MOCA_STATS_TX_MCAST_PKTS (tx_multicast (stats priv)) w4") auto
  obtain r5 v5 w6 where a5: "mxl371x_read_mem64 b MOCA_STATS_RX_TOTAL_PKTS (rx_packets (stats priv)) w5 = (r5, v5, w6)"
    by (cases "mxl371x_read_mem64 b MOCA_STATS_RX_TOTAL_PKTS (rx_packets (stats priv)) w5") auto
  obtain r6 v6 w7 where a6: "mxl371x_read_mem64 b MOCA_STATS_RX_TOTAL_BYTES (rx_bytes (stats priv)) w6 = (r6, v6, w7)"
    by (cases "mxl371x_read_mem64 b MOCA_STATS_RX_TOTAL_BYTES (rx_bytes (stats priv)) w6") auto
  obtain r7 v7 w8 where a7: "mxl371x_read_mem64 b MOCA_STATS_RX_DROPPED_PKTS (rx_dropped (stats priv)) w7 = (r7, v7, w8)"
    by (cases "mxl371x_read_mem64 b MOCA_STATS_RX_DROPPED_PKTS (rx_dropped (stats priv)) w7") auto
  obtain r8 v8 w9 where a8: "mxl371x_read_mem64 b MOCA_STATS_RX_ERROR_PKTS (rx_errors (stats priv)) w8 = (r8, v8, w9)"
    by (cases "mxl371x_read_mem64 b MOCA_STATS_RX_ERROR_PKTS (rx_errors (stats priv)) w8") auto
  have rs: "rs = [(r0, v0), (r1, v1), (r2, v2), (r3, v3), (r4, v4), (r5, v5), (r6, v6), (r7, v7), (r8, v8)]"
    and w': "w' = w9"
    using assms by (simp_all add: stats_regs_def a0 a1 a2 a3 a4 a5 a6 a7 a8)
  have s0: "read_stat b MOCA_STATS_TX_TOTAL_PKTS tx_packets (\<lambda>v s. s\<lparr>tx_packets := v\<rparr>)
        (priv) w
      = (r0, priv\<lparr>stats := (stats priv)\<lparr>tx_packets := v0\<rparr>\<rparr>, w1)"
    by (simp add: read_stat_def a0)
  have s1: "read_stat b MOCA_STATS_TX_TOTAL_BYTES tx_bytes (\<lambda>v s. s\<lparr>tx_bytes := v\<rparr>)
        (priv\<lparr>stats := (stats priv)\<lparr>tx_packets := v0\<rparr>\<rparr>) w1
      = (r1, priv\<lparr>stats := (stats priv)\<lparr>tx_packets := v0, tx_bytes := v1\<rparr>\<rparr>, w2)"
    by (simp add: read_stat_def a1)
  have s2: "read_stat b MOCA_STATS_TX_DROPPED_PKTS tx_dropped (\<lambda>v s. s\<lparr>tx_dropped := v\<rparr>)
        (priv\<lparr>stats := (stats priv)\<lparr>tx_packets := v0, tx_bytes := v1\<rparr>\<rparr>) w2
      = (r2, priv\<lparr>stats := (stats priv)\<lparr>tx_packets := v0, tx_bytes := v1, tx_dropped := v2\<rparr>\<rparr>, w3)"
    by (simp add: read_stat_def a2)
  have s3: "read_stat b MOCA_STATS_TX_BCAST_PKTS tx_broadcast (\<lambda>v s. s\<lparr>tx_broadcast := v\<rparr>)
        (priv\<lparr>stats := (stats priv)\<lparr>tx_packets := v0, tx_bytes := v1, tx_dropped := v2\<rparr>\<rparr>) w3
      = (r3, priv\<lparr>stats := (stats priv)\<lparr>tx_packets := v0, tx_bytes := v1, tx_dropped := v2, tx_broadcast := v3\<rparr>\<rparr>, w4)"
    by (simp add: read_stat_def a3)
  have s4: "read_stat b MOCA_STATS_TX_MCAST_PKTS tx_multicast (\<lambda>v s. s\<lparr>tx_multicast := v\<rparr>)
        (priv\<lparr>stats := (stats priv)\<lparr>tx_packets := v0, tx_bytes := v1, tx_dropped := v2, tx_broadcast := v3\<rparr>\<rparr>) w4
      = (r4, priv\<lparr>stats := (stats priv)\<lparr>tx_packets := v0, tx_bytes := v1, tx_dropped := v2, tx_broadcast := v3, tx_multicast := v4\<rparr>\<rparr>, w5)"
    by (simp add: read_stat_def a4)
  have s5: "read_stat b MOCA_STATS_RX_TOTAL_PKTS rx_packets (\<lambda>v s. s\<lparr>rx_packets := v\<rparr>)
        (priv\<lparr>stats := (stats priv)\<lparr>tx_packets := v0, tx_bytes := v1, tx_dropped := v2, tx_broadcast := v3, tx_multicast := v4\<rparr>\<rparr>) w5
      = (r5, priv\<lparr>stats := (stats priv)\<lparr>tx_packets := v0, tx_bytes := v1, tx_dropped := v2, tx_broadcast := v3, tx_multicast := v4, rx_packets := v5\<rparr>\<rparr>, w6)"
    by (simp add: read_stat_def a5)
  have s6: "read_stat b MOCA_STATS_RX_TOTAL_BYTES rx_bytes (\<lambda>v s. s\<lparr>rx_bytes := v\<rparr>)
        (priv\<lparr>stats := (stats priv)\<lparr>tx_packets := v0, tx_bytes := v1, tx_dropped := v2, tx_broadcast := v3, tx_multicast := v4, rx_packets := v5\<rparr>\<rparr>) w6
      = (r6, priv\<lparr>stats := (stats priv)\<lparr>tx_packets := v0, tx_bytes := v1, tx_dropped := v2, tx_broadcast := v3, tx_multicast := v4, rx_packets := v5, rx_bytes := v6\<rparr>\<rparr>, w7)"
    by (simp add: read_stat_def a6)
  have s7: "read_stat b MOCA_STATS_RX_DROPPED_PKTS rx_dropped (\<lambda>v s. s\<lparr>rx_dropped := v\<rparr>)
        (priv\<lparr>stats := (stats priv)\<lparr>tx_packets := v0, tx_bytes := v1, tx_dropped := v2, tx_broadcast := v3, tx_multicast := v4, rx_packets := v5, rx_bytes := v6\<rparr>\<rparr>) w7
      = (r7, priv\<lparr>stats := (stats priv)\<lparr>tx_packets := v0, tx_bytes := v1, tx_dropped := v2, tx_broadcast := v3, tx_multicast := v4, rx_packets := v5, rx_bytes := v6, rx_dropped := v7\<rparr>\<rparr>, w8)"
    by (simp add: read_stat_def a7)
  have s8: "read_stat b MOCA_STATS_RX_ERROR_PKTS rx_errors (\<lambda>v s. s\<lparr>rx_errors := v\<rparr>)
        (priv\<lparr>stats := (stats priv)\<lparr>tx_packets := v0, tx_bytes := v1, tx_dropped := v2, tx_broadcast := v3, tx_multicast := v4, rx_packets := v5, rx_bytes := v6, rx_dropped := v7\<rparr>\<rparr>) w8
      = (r8, priv\<lparr>stats := (stats priv)\<lparr>tx_packets := v0, tx_bytes := v1, tx_dropped := v2, tx_broadcast := v3, tx_multicast := v4, rx_packets := v5, rx_bytes := v6, rx_dropped := v7, rx_errors := v8\<rparr>\<rparr>, w9)"
    by (simp add: read_stat_def a8)
  have u: "mxl371x_update_stats b priv w
      = (r0 OR r1 OR r2 OR r3 OR r4 OR r5 OR r6 OR r7 OR r8, priv\<lparr>stats := (stats priv)\<lparr>tx_packets := v0, tx_bytes := v1, tx_dropped := v2, tx_broadcast := v3, tx_multicast := v4, rx_packets := v5, rx_bytes := v6, rx_dropped := v7, rx_errors := v8\<rparr>\<rparr>, w9)"
    by (simp only: mxl371x_update_stats_def Let_def s0 s1 s2 s3 s4 s5 s6 s7 s8 prod.case or.assoc)
  have nth: "rs ! 0 = (r0, v0)" "rs ! 1 = (r1, v1)" "rs ! 2 = (r2, v2)" "rs ! 3 = (r3, v3)"
    "rs ! 4 = (r4, v4)" "rs ! 5 = (r5, v5)" "rs ! 6 = (r6, v6)" "rs ! 7 = (r7, v7)" "rs ! 8 = (r8, v8)"
    by (simp_all add: rs)
  have lit: "(stats priv)\<lparr>tx_packets := v0, tx_bytes := v1, tx_dropped := v2, tx_broadcast := v3, tx_multicast := v4, rx_packets := v5, rx_bytes := v6, rx_dropped := v7, rx_errors := v8\<rparr>
      = \<lparr>tx_packets = v0, tx_bytes = v1, tx_dropped = v2, tx_broadcast = v3, tx_multicast = v4, rx_packets = v5, rx_bytes = v6, rx_dropped = v7, rx_errors = v8\<rparr>"
    by (cases "stats priv") simp
  show "snd (mxl371x_update_stats b priv w) =
           (priv\<lparr>stats := \<lparr>tx_packets = snd (rs ! 0), tx_bytes = snd (rs ! 1), tx_dropped = snd (rs ! 2), tx_broadcast = snd (rs ! 3), tx_multicast = snd (rs ! 4), rx_packets = snd (rs ! 5), rx_bytes = snd (rs ! 6), rx_dropped = snd (rs ! 7), rx_errors = snd (rs ! 8)\<rparr>\<rparr>, w')"
    by (simp only: u nth w' snd_conv lit)
  have le: "r0 \<le> 0" "r1 \<le> 0" "r2 \<le> 0" "r3 \<le> 0" "r4 \<le> 0" "r5 \<le> 0" "r6 \<le> 0" "r7 \<le> 0" "r8 \<le> 0"
    using a0 a1 a2 a3 a4 a5 a6 a7 a8 by (auto dest: read_mem64_le0D)
  have ne: "(r < 0) = (r \<noteq> 0)" if "r \<le> 0" for r :: int
    using that by auto
  show "fst (mxl371x_update_stats b priv w) < 0 \<longleftrightarrow> any_failed rs"
    by (simp add: u rs any_failed_def ne [OF le(1)] ne [OF le(2)] ne [OF le(3)] ne [OF le(4)]
        ne [OF le(5)] ne [OF le(6)] ne [OF le(7)] ne [OF le(8)] ne [OF le(9)])
  show "length rs = 9" by (simp add: rs)
  have keep: "r0 \<noteq> 0 \<longrightarrow> v0 = tx_packets (stats priv)"
    "r1 \<noteq> 0 \<longrightarrow> v1 = tx_bytes (stats priv)"
    "r2 \<noteq> 0 \<longrightarrow> v2 = tx_dropped (stats priv)"
    "r3 \<noteq> 0 \<longrightarrow> v3 = tx_broadcast (stats priv)"
    "r4 \<noteq> 0 \<longrightarrow> v4 = tx_multicast (stats priv)"
    "r5 \<noteq> 0 \<longrightarrow> v5 = rx_packets (stats priv)"
    "r6 \<noteq> 0 \<longrightarrow> v6 = rx_bytes (stats priv)"
    "r7 \<noteq> 0 \<longrightarrow> v7 = rx_dropped (stats priv)"
    "r8 \<noteq> 0 \<longrightarrow> v8 = rx_errors (stats priv)"
    using a0 a1 a2 a3 a4 a5 a6 a7 a8 by (auto dest: read_mem64_keepD)
  show "list_all2 (\<lambda>res reg. fst res \<noteq> 0 \<longrightarrow> snd res = snd reg) rs (stats_regs (stats priv))"
    using keep by (simp add: rs stats_regs_def)
qed

lemma read32_all_length: "read32_all b as val w = (rs, w') \<Longrightarrow> length rs = length as"
  by (induction as arbitrary: val w rs w') (auto split: prod.splits)

text \<open>
  C7. The status reader is the nine 32-bit reads of \<open>status_regs\<close>, all of them made
  whatever the others return: each field whose read returned 0 gets the masked value
  read, each field whose read failed keeps its value, no other field changes, and the
  final \<open>ret\<close> is \<open>-EIO\<close> (the warning is logged) if and only if some read failed. The
  statistics reader is the nine 64-bit reads of \<open>stats_regs\<close>, all of them made: each
  counter gets what its read left in it, which for a failed read is the value it had,
  and the final \<open>ret\<close> is negative (the warning is logged) if and only if some read
  failed.
\<close>

theorem batch_reads_best_effort:
  "(case read32_all b status_regs 0 w of
      (rs, w') \<Rightarrow>
        length rs = 9 \<and>
        mxl371x_read_moca_status b priv w =
          (if any_failed rs then - EIO else 0,
           priv\<lparr>link_status := (if fst (rs ! 0) = 0 then snd (rs ! 0) AND MOCA_LINK_STATUS_MASK else link_status priv),
              phy_rate := (if fst (rs ! 1) = 0 then snd (rs ! 1) AND 0xffff else phy_rate priv),
              moca_version := (if fst (rs ! 2) = 0 then snd (rs ! 2) AND 0xff else moca_version priv),
              node_id := (if fst (rs ! 3) = 0 then snd (rs ! 3) AND 0xff else node_id priv),
              nc_node_id := (if fst (rs ! 4) = 0 then snd (rs ! 4) AND 0xff else nc_node_id priv),
              lof := (if fst (rs ! 5) = 0 then snd (rs ! 5) else lof priv),
              network_state := (if fst (rs ! 6) = 0 then snd (rs ! 6) AND 0xff else network_state priv),
              active_nodes := (if fst (rs ! 7) = 0 then snd (rs ! 7) else active_nodes priv),
              security_enabled := (if fst (rs ! 8) = 0 then snd (rs ! 8) AND MOCA_SECURITY_ENABLED \<noteq> 0 else security_enabled priv)\<rparr>,
           w')) \<and>
   (case read64_all b (stats_regs (stats priv)) w of
      (rs, w') \<Rightarrow>
        length rs = 9 \<and>
        snd (mxl371x_update_stats b priv w) =
          (priv\<lparr>stats := \<lparr>tx_packets = snd (rs ! 0), tx_bytes = snd (rs ! 1), tx_dropped = snd (rs ! 2), tx_broadcast = snd (rs ! 3), tx_multicast = snd (rs ! 4), rx_packets = snd (rs ! 5), rx_bytes = snd (rs ! 6), rx_dropped = snd (rs ! 7), rx_errors = snd (rs ! 8)\<rparr>\<rparr>, w') \<and>
        (fst (mxl371x_update_stats b priv w) < 0 \<longleftrightarrow> any_failed rs) \<and>
        list_all2 (\<lambda>res reg. fst res \<noteq> 0 \<longrightarrow> snd res = snd reg) rs (stats_regs (stats priv)))"
proof -
  obtain rs w' where a: "read32_all b status_regs 0 w = (rs, w')"
    by (cases "read32_all b status_regs 0 w") auto
  obtain qs v' where c: "read64_all b (stats_regs (stats priv)) w = (qs, v')"
    by (cases "read64_all b (stats_regs (stats priv)) w") auto
  have "length rs = 9"
    using read32_all_length [OF a] by (simp add: status_regs_def)
  then show ?thesis
    using read_moca_status_independent [OF a, of priv] update_stats_independent [OF c]
    by (simp only: a c prod.case simp_thms)
qed

text \<open>
  One failing transfer: the third status read fails and \<open>moca_version\<close> keeps 0x25, the
  eight other fields are read; the third counter read fails and \<open>tx_dropped\<close> keeps 5,
  the eight other counters are read.
\<close>

theorem batch_reads_best_effort_witness:
  "fst (mxl371x_read_moca_status (script_bus (fail_at 9 7)) stale (start 0)) = - EIO \<and>
   link_status (fst (snd (mxl371x_read_moca_status (script_bus (fail_at 9 7)) stale (start 0)))) = 7 \<and>
   phy_rate (fst (snd (mxl371x_read_moca_status (script_bus (fail_at 9 7)) stale (start 0)))) = 7 \<and>
   moca_version (fst (snd (mxl371x_read_moca_status (script_bus (fail_at 9 7)) stale (start 0)))) = 0x25 \<and>
   node_id (fst (snd (mxl371x_read_moca_status (script_bus (fail_at 9 7)) stale (start 0)))) = 7 \<and>
   lof (fst (snd (mxl371x_read_moca_status (script_bus (fail_at 9 7)) stale (start 0)))) = 0x00070007 \<and>
   security_enabled (fst (snd (mxl371x_read_moca_status (script_bus (fail_at 9 7)) stale (start 0)))) \<and>
   fst (mxl371x_update_stats (script_bus (fail_at 17 7)) stale (start 0)) < 0 \<and>
   tx_bytes (stats (fst (snd (mxl371x_update_stats (script_bus (fail_at 17 7)) stale (start 0)))))
     = 0x0007000700070007 \<and>
   tx_dropped (stats (fst (snd (mxl371x_update_stats (script_bus (fail_at 17 7)) stale (start 0))))) = 5 \<and>
   rx_errors (stats (fst (snd (mxl371x_update_stats (script_bus (fail_at 17 7)) stale (start 0)))))
     = 0x0007000700070007"
proof -
  let ?B = "script_bus (fail_at 9 7)"
  let ?C = "script_bus (fail_at 17 7)"
  have a: "fst (read32_all ?B status_regs 0 (start 0))
      = [(0, 0x00070007), (0, 0x00070007), (- 5, 0x00070007), (0, 0x00070007), (0, 0x00070007),
         (0, 0x00070007), (0, 0x00070007), (0, 0x00070007), (0, 0x00070007)]"
    by (simp add: status_regs_def eval_bus fail_at_def EIO_def)
  have s: "stats stale = (stats mxl371x_probe)\<lparr>tx_dropped := 5\<rparr>" "moca_version stale = 0x25"
    by (simp_all add: stale_def)
  have c: "fst (read64_all ?C (stats_regs (stats stale)) (start 0))
      = [(0, 0x0007000700070007), (0, 0x0007000700070007), (- 5, 5), (0, 0x0007000700070007),
         (0, 0x0007000700070007), (0, 0x0007000700070007), (0, 0x0007000700070007),
         (0, 0x0007000700070007), (0, 0x0007000700070007)]"
    by (simp add: s stats_regs_def mxl371x_probe_def mxl371x_read_mem64_def eval_bus
        fail_at_def EIO_def)
  have A: "mxl371x_read_moca_status ?B stale (start 0) =
      (- EIO,
       stale\<lparr>link_status := 7, phy_rate := 7, moca_version := moca_version stale, node_id := 7,
             nc_node_id := 7, lof := 0x00070007, network_state := 7, active_nodes := 0x00070007,
             security_enabled := True\<rparr>,
       snd (read32_all ?B status_regs 0 (start 0)))"
    using batch_reads_best_effort [where b = ?B and priv = stale and w = "start 0", THEN conjunct1]
    by (simp add: case_prod_unfold a any_failed_def MOCA_LINK_STATUS_MASK_def
        MOCA_SECURITY_ENABLED_def)
  have C: "snd (mxl371x_update_stats ?C stale (start 0)) =
      (stale\<lparr>stats := \<lparr>tx_packets = 0x0007000700070007, tx_bytes = 0x0007000700070007,
                        tx_dropped = 5, tx_broadcast = 0x0007000700070007,
                        tx_multicast = 0x0007000700070007, rx_packets = 0x0007000700070007,
                        rx_bytes = 0x0007000700070007, rx_dropped = 0x0007000700070007,
                        rx_errors = 0x0007000700070007\<rparr>\<rparr>,
       snd (read64_all ?C (stats_regs (stats stale)) (start 0)))"
    and D: "fst (mxl371x_update_stats ?C stale (start 0)) < 0"
    using batch_reads_best_effort [where b = ?C and priv = stale and w = "start 0", THEN conjunct2]
    by (simp_all add: case_prod_unfold c any_failed_def)
  have C': "fst (snd (mxl371x_update_stats ?C stale (start 0))) =
      stale\<lparr>stats := \<lparr>tx_packets = 0x0007000700070007, tx_bytes = 0x0007000700070007,
                        tx_dropped = 5, tx_broadcast = 0x0007000700070007,
                        tx_multicast = 0x0007000700070007, rx_packets = 0x0007000700070007,
                        rx_bytes = 0x0007000700070007, rx_dropped = 0x0007000700070007,
                        rx_errors = 0x0007000700070007\<rparr>\<rparr>"
    using C by (simp add: prod_eq_iff)
  show ?thesis
    by (simp add: A C' D s)
qed


section \<open>Identity: the existing GUID\<close>

text \<open>
  When the high register reads non-zero and the low register can be read, the existing
  value is kept: two reads, no write, no random bytes.
\<close>

lemma set_default_guid_keeps:
  assumes "mxl371x_read_mem32 b MOCA_MAC_ADDR_HI 0 w = (0, mac_hi, w1)" "mac_hi \<noteq> 0"
    and "mxl371x_read_mem32 b MOCA_MAC_ADDR_LO 0 w1 = (0, mac_lo, w2)"
  shows "mxl371x_set_default_guid b of_node attached_dev random w = (0, w2)"
    and "trace w2 = trace w @ read32_xfers MOCA_MAC_ADDR_HI @ read32_xfers MOCA_MAC_ADDR_LO"
  using assms read_mem32_ok_trace [OF assms(1)] read_mem32_ok_trace [OF assms(3)]
  by (simp_all add: mxl371x_set_default_guid_def)

text \<open>
  C6 fails on the code. The low register is read only if the high register is not zero,
  so the test \<open>mac_hi != 0 || mac_lo != 0\<close> never sees a GUID whose first four bytes are
  zero. With \<open>00:00:00:00:12:34\<close> in the hardware (a value \<open>moca_guid_store\<close> accepts), no
  device-tree address and no attached device, the resolver draws random bytes and
  overwrites both registers.
\<close>

theorem set_default_guid_low_only:
  "(case mxl371x_set_default_guid fake_bus None None [0xaa, 0xbb, 0xcc]
           (start (fake_init (guid_hw 0 0x12340000))) of
      (ret, w) \<Rightarrow>
        ret = 0 \<and>
        fk_mem (dev w) MOCA_MAC_ADDR_HI = 0x02243eaa \<and>
        fk_mem (dev w) MOCA_MAC_ADDR_LO = 0xbbcc0000 \<and>
        trace w = read32_xfers MOCA_MAC_ADDR_HI @ [Random 3]
                    @ write32_xfers MOCA_MAC_ADDR_HI 0x02243eaa
                    @ write32_xfers MOCA_MAC_ADDR_LO 0xbbcc0000)"
  by (simp add: mxl371x_set_default_guid_def set_guid_def fake_read_mem32 fake_write_mem32
      start_def fake_init_def guid_hw_def MOCA_MAC_ADDR_HI_def MOCA_MAC_ADDR_LO_def)


theorem set_default_guid_low_only_witness:
  "fst (mxl371x_set_default_guid fake_bus None None [0xaa, 0xbb, 0xcc]
          (start (fake_init (guid_hw 0 0x12340000)))) = 0 \<and>
   Random 3 \<in> set (trace (snd (mxl371x_set_default_guid fake_bus None None [0xaa, 0xbb, 0xcc]
                                  (start (fake_init (guid_hw 0 0x12340000))))))"
  using set_default_guid_low_only
  by (simp add: case_prod_unfold)

section \<open>The firmware-loaded flag\<close>







lemma stats_poll_work_idle:
  "privs p = Some priv \<Longrightarrow> \<not> (fw_loaded priv \<and> pd_attached_dev phydev) \<Longrightarrow>
   mxl371x_stats_poll_work phydev p privs w = Some (privs(p \<mapsto> priv\<lparr>stats_poll := True\<rparr>), w)"
  by (auto simp add: mxl371x_stats_poll_work_def)







end
